theory Spec2Isabelle
  imports Main "HOL-Library.Sublist"
begin

section \<open>The development-server command of the ANAL framework\<close>

text \<open>
  A shallow embedding of \<^verbatim>\<open>src/anal/cli/commands/runserver.py\<close>: the Application
  Locator (\<^verbatim>\<open>find_asgi_application\<close>, \<^verbatim>\<open>check_asgi_module\<close>,
  \<^verbatim>\<open>check_asgi_module_direct\<close>), the reload watch set (\<^verbatim>\<open>get_reload_dirs\<close>) and
  the server start (\<^verbatim>\<open>run_development_server\<close>).

  The functions read the file system and the import machinery, print, and call the
  server runner. The model makes that explicit: every function takes the \<open>world\<close> it
  runs in and returns its outcome (an exception, \<open>Inl\<close>, or a value, \<open>Inr\<close>) together
  with the list of effects it performed, in order.
\<close>

subsection \<open>Exceptions, values and effects\<close>

text \<open>
  The exceptions the code meets. \<open>SystemExit\<close> (raised by \<^verbatim>\<open>sys.exit\<close>) and
  \<open>KeyboardInterrupt\<close> derive from \<^verbatim>\<open>BaseException\<close> only; all others derive
  from \<^verbatim>\<open>Exception\<close>, which is what the handlers \<^verbatim>\<open>except Exception\<close> catch.
\<close>

datatype exn =
    ImportError
  | ModuleNotFoundError
  | AttributeError
  | ValueError
  | PermissionError
  | OtherException string
  | KeyboardInterrupt
  | SystemExit int

fun is_Exception :: "exn \<Rightarrow> bool" where
  "is_Exception KeyboardInterrupt = False"
| "is_Exception (SystemExit _) = False"
| "is_Exception _ = True"

text \<open>Python values as far as the command handles them, and their truth value.\<close>

datatype pyval = PyNone | PyBool bool | PyInt int | PyStr string

fun truthy :: "pyval \<Rightarrow> bool" where
  "truthy PyNone = False"
| "truthy (PyBool b) = b"
| "truthy (PyInt i) = (i \<noteq> 0)"
| "truthy (PyStr s) = (s \<noteq> [])"

text \<open>
  An object found in a module, as far as \<^verbatim>\<open>callable\<close> tells them apart. A module is
  what \<^verbatim>\<open>getattr(module, name)\<close> gives for each name: the object, or the exception
  raised (\<open>AttributeError\<close> when the name is missing).
\<close>

datatype pyobj = Function | PlainValue

fun callable :: "pyobj \<Rightarrow> bool" where
  "callable Function = True"
| "callable PlainValue = False"

type_synonym pymodule = "string \<Rightarrow> exn + pyobj"

definition hasattr :: "pymodule \<Rightarrow> string \<Rightarrow> exn + bool" where
  "hasattr m a =
     (case m a of
        Inr _ \<Rightarrow> Inr True
      | Inl e \<Rightarrow> if e = AttributeError then Inr False else Inl e)"

text \<open>The configuration mapping handed to \<^verbatim>\<open>uvicorn.run\<close>.\<close>

type_synonym config = "string \<rightharpoonup> pyval"

datatype event =
    Print string
  | Glob string
  | Import string
  | UvicornRun config

text \<open>
  An entry of the working directory, as \<^verbatim>\<open>get_reload_dirs\<close> inspects it: its name,
  what \<^verbatim>\<open>item.is_dir()\<close> gives and what \<^verbatim>\<open>(item / '__init__.py').exists()\<close> gives.
  Both calls raise the error of the operating system when the file cannot be examined
  (\<open>PermissionError\<close> for a directory that may not be searched).
\<close>

record entry =
  name :: string
  is_dir :: "exn + bool"
  has_init :: "exn + bool"

text \<open>
  The world a call runs in, read but not changed by the functions:
  \<^item> \<open>uvicorn_available\<close>: the import of \<^verbatim>\<open>uvicorn\<close> at the top of the file succeeded
    (\<^verbatim>\<open>uvicorn is not None\<close>);
  \<^item> \<open>cwd\<close>: \<^verbatim>\<open>str(Path.cwd())\<close>, and \<open>iterdir\<close>: the entries of that directory, or
    the error raised when it cannot be listed;
  \<^item> \<open>glob_glob\<close>: what \<^verbatim>\<open>glob.glob\<close> returns for a pattern;
  \<^item> \<open>import_module\<close>: what \<^verbatim>\<open>importlib.import_module\<close> does for a module name, the
    module or the exception that the import machinery or the top-level code of the module
    raises;
  \<^item> \<open>uvicorn_run\<close>: the exception with which \<^verbatim>\<open>uvicorn.run\<close> ends for a configuration,
    if any.
\<close>

record world =
  uvicorn_available :: bool
  cwd :: string
  iterdir :: "exn + entry list"
  glob_glob :: "string \<Rightarrow> string list"
  import_module :: "string \<Rightarrow> exn + pymodule"
  uvicorn_run :: "config \<Rightarrow> exn option"

subsection \<open>Strings and paths\<close>

text \<open>\<^verbatim>\<open>s.replace(old, new)\<close> for a non-empty \<open>old\<close>.\<close>

fun replace :: "string \<Rightarrow> string \<Rightarrow> string \<Rightarrow> string" where
  "replace old new [] = []"
| "replace old new (c # cs) =
     (if old \<noteq> [] \<and> prefix old (c # cs)
      then new @ replace old new (drop (length old - 1) cs)
      else c # replace old new cs)"

text \<open>\<^verbatim>\<open>s.rstrip(chars)\<close>: drops every trailing character that occurs in \<open>chars\<close>.\<close>

definition rstrip :: "string \<Rightarrow> string \<Rightarrow> string" where
  "rstrip chars s = rev (dropWhile (\<lambda>c. c \<in> set chars) (rev s))"

text \<open>\<^verbatim>\<open>s.split(":", 1)\<close>: one piece, or the pieces before and after the first colon.\<close>

definition split_colon :: "string \<Rightarrow> string list" where
  "split_colon s =
     (if CHR '':'' \<in> set s
      then [takeWhile (\<lambda>c. c \<noteq> CHR '':'') s, tl (dropWhile (\<lambda>c. c \<noteq> CHR '':'') s)]
      else [s])"

text \<open>\<^verbatim>\<open>Path(p).name\<close>, the last component, and \<^verbatim>\<open>str(Path(p) / n)\<close>.\<close>

definition path_name :: "string \<Rightarrow> string" where
  "path_name p = rev (takeWhile (\<lambda>c. c \<noteq> CHR ''/'') (rev p))"

definition path_join :: "string \<Rightarrow> string \<Rightarrow> string" where
  "path_join p n = (if p = ''/'' then p @ n else p @ ''/'' @ n)"

subsection \<open>The Application Locator\<close>

text \<open>\<^verbatim>\<open>try: ... except Exception: return False\<close> around a computation.\<close>

fun except_Exception :: "(exn + bool) \<times> event list \<Rightarrow> (exn + bool) \<times> event list" where
  "except_Exception (Inl e, evs) = (if is_Exception e then (Inr False, evs) else (Inl e, evs))"
| "except_Exception (Inr b, evs) = (Inr b, evs)"

definition check_asgi_module_direct :: "world \<Rightarrow> string \<Rightarrow> (exn + bool) \<times> event list" where
  "check_asgi_module_direct w module_path = except_Exception
     (case split_colon module_path of
        [module_name, app_name] \<Rightarrow>
          (case import_module w module_name of
             Inl e \<Rightarrow> (Inl e, [Import module_name])
           | Inr module \<Rightarrow>
               (case hasattr module app_name of
                  Inl e \<Rightarrow> (Inl e, [Import module_name])
                | Inr False \<Rightarrow> (Inr False, [Import module_name])
                | Inr True \<Rightarrow>
                    (case module app_name of
                       Inl e \<Rightarrow> (Inl e, [Import module_name])
                     | Inr app \<Rightarrow> (Inr (callable app), [Import module_name]))))
      | _ \<Rightarrow> (Inl ValueError, []))"

text \<open>
  The string that is probed for a path the wildcard pattern matched: the path is turned
  into a module name (\<^verbatim>\<open>mod_name\<close>) and the attribute name is put behind it.
\<close>

definition test_path :: "string \<Rightarrow> string \<Rightarrow> string" where
  "test_path app_name path =
     (let mod_name = rstrip ''.py''
            (replace [CHR 0x5C, CHR 0x5C] ''.'' (replace ''/'' ''.'' path))
      in mod_name @ '':'' @ app_name)"

text \<open>The loop over the paths that the wildcard pattern matched.\<close>

fun check_paths :: "world \<Rightarrow> string \<Rightarrow> string list \<Rightarrow> (exn + bool) \<times> event list" where
  "check_paths w app_name [] = (Inr False, [])"
| "check_paths w app_name (path # paths) =
     (case check_asgi_module_direct w (test_path app_name path) of
        (Inl e, evs) \<Rightarrow> (Inl e, evs)
      | (Inr True, evs) \<Rightarrow> (Inr True, evs)
      | (Inr False, evs) \<Rightarrow>
          (case check_paths w app_name paths of (r, evs') \<Rightarrow> (r, evs @ evs')))"

definition check_asgi_module :: "world \<Rightarrow> string \<Rightarrow> (exn + bool) \<times> event list" where
  "check_asgi_module w module_path = except_Exception
     (if CHR '':'' \<notin> set module_path then (Inr False, [])
      else
        (case split_colon module_path of
           [module_name, app_name] \<Rightarrow>
             if CHR ''*'' \<in> set module_name
             then
               (let pattern = replace ''*'' ''*/'' module_name
                in case check_paths w app_name (glob_glob w pattern) of
                     (r, evs) \<Rightarrow> (r, Glob pattern # evs))
             else check_asgi_module_direct w module_path
         | _ \<Rightarrow> (Inl ValueError, [])))"

definition candidates :: "world \<Rightarrow> string list" where
  "candidates w =
     (let project_name = path_name (cwd w)
      in [''main:app'', ''asgi:application'', ''app:app'', ''application:app'',
          ''*/main:app'', ''*/asgi:application'', ''*/app:app'']
         @ [project_name @ ''.main:app'', project_name @ ''.asgi:application'',
            project_name @ ''/main:app'', project_name @ ''/asgi:application''])"

text \<open>The loop \<^verbatim>\<open>for candidate in candidates\<close>.\<close>

fun find_loop :: "world \<Rightarrow> string list \<Rightarrow> (exn + string option) \<times> event list" where
  "find_loop w [] = (Inr None, [])"
| "find_loop w (candidate # rest) =
     (case check_asgi_module w candidate of
        (Inl e, evs) \<Rightarrow> (Inl e, evs)
      | (Inr True, evs) \<Rightarrow> (Inr (Some candidate), evs)
      | (Inr False, evs) \<Rightarrow>
          (case find_loop w rest of (r, evs') \<Rightarrow> (r, evs @ evs')))"

definition find_asgi_application :: "world \<Rightarrow> (exn + string option) \<times> event list" where
  "find_asgi_application w = find_loop w (candidates w)"

subsection \<open>The reload watch set\<close>

text \<open>
  The loop \<^verbatim>\<open>for item in Path.cwd().iterdir()\<close>, with the list \<^verbatim>\<open>reload_dirs\<close> it
  appends to as an accumulator. The function has no handler: an error raised by
  \<^verbatim>\<open>is_dir\<close>, by \<^verbatim>\<open>exists\<close> or by the listing ends the call. The conditions are
  evaluated from left to right, so \<^verbatim>\<open>exists\<close> is called only for a directory that is
  neither hidden nor the cache directory.
\<close>

fun reload_loop :: "world \<Rightarrow> entry list \<Rightarrow> string list \<Rightarrow> exn + string list" where
  "reload_loop w [] reload_dirs = Inr reload_dirs"
| "reload_loop w (item # items) reload_dirs =
     (case is_dir item of
        Inl e \<Rightarrow> Inl e
      | Inr d \<Rightarrow>
          if d \<and> \<not> prefix ''.'' (name item) \<and> \<not> name item = ''__pycache__''
          then
            (case has_init item of
               Inl e \<Rightarrow> Inl e
             | Inr h \<Rightarrow>
                 if h
                 then reload_loop w items (reload_dirs @ [path_join (cwd w) (name item)])
                 else reload_loop w items reload_dirs)
          else reload_loop w items reload_dirs)"

definition get_reload_dirs :: "world \<Rightarrow> exn + string list" where
  "get_reload_dirs w =
     (case iterdir w of
        Inl e \<Rightarrow> Inl e
      | Inr items \<Rightarrow> reload_loop w items [cwd w])"

subsection \<open>Starting the server\<close>

text \<open>
  Modelled from the spec: the class \<^verbatim>\<open>Settings\<close> of \<^verbatim>\<open>anal.core.config\<close> is not
  part of the sources. The spec describes it as a configuration object optionally exposing
  \<^verbatim>\<open>DEBUG\<close>, \<^verbatim>\<open>SSL_KEYFILE\<close> and \<^verbatim>\<open>SSL_CERTFILE\<close>, consumed read-only: a settings
  object is the map from the attribute names it has to their values, and as an object it
  is true in a condition. The argument \<^verbatim>\<open>settings\<close> is \<open>None\<close> or \<open>Some\<close> such
  object.
\<close>

type_synonym settings = "string \<rightharpoonup> pyval"

text \<open>\<^verbatim>\<open>str(n)\<close> of an integer, for the address that is printed.\<close>

definition digit :: "nat \<Rightarrow> char" where
  "digit d = char_of (48 + d)"

function str_nat :: "nat \<Rightarrow> string" where
  "str_nat n = (if n < 10 then [digit n] else str_nat (n div 10) @ [digit (n mod 10)])"
  by pat_completeness auto
termination
  by (relation "measure (\<lambda>n. n)") auto

definition str_int :: "int \<Rightarrow> string" where
  "str_int i = (if i < 0 then ''-'' @ str_nat (nat (- i)) else str_nat (nat i))"

text \<open>\<^verbatim>\<open>"debug" if settings and settings.DEBUG else "info"\<close>.\<close>

definition log_level :: "settings option \<Rightarrow> exn + string" where
  "log_level settings =
     (case settings of
        None \<Rightarrow> Inr ''info''
      | Some s \<Rightarrow>
          (case s ''DEBUG'' of
             None \<Rightarrow> Inl AttributeError
           | Some v \<Rightarrow> Inr (if truthy v then ''debug'' else ''info'')))"

text \<open>The block \<^verbatim>\<open># Add SSL if configured\<close>.\<close>

definition add_ssl :: "settings option \<Rightarrow> config \<Rightarrow> config" where
  "add_ssl settings config =
     (case settings of
        None \<Rightarrow> config
      | Some s \<Rightarrow>
          (case (s ''SSL_KEYFILE'', s ''SSL_CERTFILE'') of
             (Some keyfile, Some certfile) \<Rightarrow>
               if truthy keyfile \<and> truthy certfile
               then config(''ssl_keyfile'' \<mapsto> keyfile, ''ssl_certfile'' \<mapsto> certfile)
               else config
           | _ \<Rightarrow> config))"

definition run_development_server ::
  "world \<Rightarrow> string \<Rightarrow> int \<Rightarrow> bool \<Rightarrow> int \<Rightarrow> settings option \<Rightarrow> (exn + unit) \<times> event list" where
  "run_development_server w host port reload workers settings =
     (if \<not> uvicorn_available w
      then (Inl (SystemExit 1),
            [Print ''Error: uvicorn is required to run the server.'',
             Print ''Install it with: pip install uvicorn[standard]''])
      else
        (case find_asgi_application w of
           (Inl e, evs) \<Rightarrow> (Inl e, evs)
         | (Inr found, evs) \<Rightarrow>
             (case (case found of None \<Rightarrow> None | Some m \<Rightarrow> if m = [] then None else Some m) of
                None \<Rightarrow>
                  (Inl (SystemExit 1),
                   evs @ [Print ''Error: Could not find ASGI application.'',
                          Print (''Make sure you have a main.py or asgi.py file ''
                                 @ ''with an 'app' or 'application' variable.'')])
              | Some app_module \<Rightarrow>
                  (let evs1 = evs
                         @ [Print (''Starting development server at http://'' @ host @ '':''
                                   @ str_int port),
                            Print ''Quit the server with CONTROL-C.'']
                         @ (if reload
                            then [Print (''Auto-reload is enabled. ''
                                         @ ''The server will restart when code changes.'')]
                            else [])
                   in case log_level settings of
                        Inl e \<Rightarrow> (Inl e, evs1)
                      | Inr level \<Rightarrow>
                          (let config = add_ssl settings
                                 [''app'' \<mapsto> PyStr app_module,
                                  ''host'' \<mapsto> PyStr host,
                                  ''port'' \<mapsto> PyInt port,
                                  ''reload'' \<mapsto> PyBool reload,
                                  ''workers'' \<mapsto> PyInt (if \<not> reload then workers else 1),
                                  ''log_level'' \<mapsto> PyStr level,
                                  ''access_log'' \<mapsto> PyBool True]
                           in case uvicorn_run w config of
                                None \<Rightarrow> (Inr (), evs1 @ [UvicornRun config])
                              | Some e \<Rightarrow>
                                  if e = KeyboardInterrupt
                                  then (Inr (), evs1 @ [UvicornRun config,
                                          Print (CHR 0x5C # ''nServer stopped.'')])
                                  else (Inl e, evs1 @ [UvicornRun config]))))))"

subsection \<open>Example projects\<close>

text \<open>
  Concrete worlds on which the functions are evaluated below. A module that defines one
  name, and a project directory \<^verbatim>\<open>/home/dev/shop\<close> in which no module can be imported.
\<close>

definition module_with :: "string \<Rightarrow> pyobj \<Rightarrow> pymodule" where
  "module_with a obj = (\<lambda>n. if n = a then Inr obj else Inl AttributeError)"

definition world_base :: world where
  "world_base =
     \<lparr>uvicorn_available = True, cwd = ''/home/dev/shop'', iterdir = Inr [],
      glob_glob = (\<lambda>_. []), import_module = (\<lambda>_. Inl ModuleNotFoundError),
      uvicorn_run = (\<lambda>_. None)\<rparr>"

text \<open>
  The only application is the callable \<^verbatim>\<open>app\<close> of the package \<^verbatim>\<open>pkg/main/\<close>, one
  directory below the project.
\<close>

definition world_nested :: world where
  "world_nested = world_base
     \<lparr>glob_glob := (\<lambda>p. if p = ''*//main'' then [''pkg/main''] else []),
      import_module := (\<lambda>m. if m = ''pkg.main'' then Inr (module_with ''app'' Function)
                            else Inl ModuleNotFoundError)\<rparr>"

text \<open>\<^verbatim>\<open>main.py\<close> is a script that ends in \<^verbatim>\<open>sys.exit(0)\<close> without a main guard.\<close>

definition world_exit :: world where
  "world_exit = world_base
     \<lparr>import_module := (\<lambda>m. if m = ''main'' then Inl (SystemExit 0)
                            else Inl ModuleNotFoundError)\<rparr>"

text \<open>The same script, beside an \<^verbatim>\<open>asgi.py\<close> and an \<^verbatim>\<open>app.py\<close> that define applications.\<close>

definition world_exit_two :: world where
  "world_exit_two = world_base
     \<lparr>import_module := (\<lambda>m. if m = ''main'' then Inl (SystemExit 0)
                            else if m = ''asgi'' then Inr (module_with ''application'' Function)
                            else if m = ''app'' then Inr (module_with ''app'' Function)
                            else Inl ModuleNotFoundError)\<rparr>"

text \<open>No \<^verbatim>\<open>main.py\<close>; \<^verbatim>\<open>asgi.py\<close> and \<^verbatim>\<open>app.py\<close> define applications.\<close>

definition world_two :: world where
  "world_two = world_base
     \<lparr>import_module := (\<lambda>m. if m = ''asgi'' then Inr (module_with ''application'' Function)
                            else if m = ''app'' then Inr (module_with ''app'' Function)
                            else Inl ModuleNotFoundError)\<rparr>"

text \<open>\<^verbatim>\<open>main.py\<close> and \<^verbatim>\<open>asgi.py\<close> both define a callable application.\<close>

definition world_both :: world where
  "world_both = world_base
     \<lparr>import_module := (\<lambda>m. if m = ''main'' then Inr (module_with ''app'' Function)
                            else if m = ''asgi'' then Inr (module_with ''application'' Function)
                            else Inl ModuleNotFoundError)\<rparr>"

text \<open>\<^verbatim>\<open>main.py\<close> has \<^verbatim>\<open>app = 42\<close>; \<^verbatim>\<open>asgi.py\<close> defines a callable application.\<close>

definition world_plain :: world where
  "world_plain = world_base
     \<lparr>import_module := (\<lambda>m. if m = ''main'' then Inr (module_with ''app'' PlainValue)
                            else if m = ''asgi'' then Inr (module_with ''application'' Function)
                            else Inl ModuleNotFoundError)\<rparr>"

text \<open>\<^verbatim>\<open>main.py\<close> fails at import time with an exception of its own.\<close>

definition world_broken :: world where
  "world_broken = world_base
     \<lparr>import_module := (\<lambda>m. if m = ''main'' then Inl (OtherException ''ZeroDivisionError'')
                            else Inl ModuleNotFoundError)\<rparr>"

text \<open>
  A project directory with a package \<^verbatim>\<open>shop/\<close>, a hidden directory, a hidden package,
  a cache directory that has an \<^verbatim>\<open>__init__.py\<close>, a directory without one, and a file.
\<close>

definition world_tree :: world where
  "world_tree = world_base
     \<lparr>iterdir := Inr
        [\<lparr>name = ''.git'', is_dir = Inr True, has_init = Inr False\<rparr>,
         \<lparr>name = ''shop'', is_dir = Inr True, has_init = Inr True\<rparr>,
         \<lparr>name = ''.tox'', is_dir = Inr True, has_init = Inr True\<rparr>,
         \<lparr>name = ''__pycache__'', is_dir = Inr True, has_init = Inr True\<rparr>,
         \<lparr>name = ''docs'', is_dir = Inr True, has_init = Inr False\<rparr>,
         \<lparr>name = ''main.py'', is_dir = Inr False, has_init = Inr False\<rparr>]\<rparr>"

text \<open>
  The same project with a directory \<^verbatim>\<open>private/\<close> that the user may not search: the
  look for \<^verbatim>\<open>private/__init__.py\<close> raises \<open>PermissionError\<close>.
\<close>

definition world_locked :: world where
  "world_locked = world_base
     \<lparr>iterdir := Inr
        [\<lparr>name = ''shop'', is_dir = Inr True, has_init = Inr True\<rparr>,
         \<lparr>name = ''private'', is_dir = Inr True, has_init = Inl PermissionError\<rparr>]\<rparr>"

text \<open>
  Two packages one directory below the project, \<^verbatim>\<open>a/main/\<close> and \<^verbatim>\<open>b/main/\<close>: the
  import of \<^verbatim>\<open>a.main\<close> raises \<open>ImportError\<close>, and \<^verbatim>\<open>b.main\<close> defines a callable
  \<^verbatim>\<open>app\<close>.
\<close>

definition world_wild :: world where
  "world_wild = world_base
     \<lparr>glob_glob := (\<lambda>p. if p = ''*//main'' then [''a/main'', ''b/main''] else []),
      import_module := (\<lambda>m. if m = ''a.main'' then Inl ImportError
                            else if m = ''b.main'' then Inr (module_with ''app'' Function)
                            else Inl ModuleNotFoundError)\<rparr>"

text \<open>The same, but the import of \<^verbatim>\<open>a.main\<close> is interrupted from the keyboard.\<close>

definition world_wild_interrupt :: world where
  "world_wild_interrupt = world_base
     \<lparr>glob_glob := (\<lambda>p. if p = ''*//main'' then [''a/main'', ''b/main''] else []),
      import_module := (\<lambda>m. if m = ''a.main'' then Inl KeyboardInterrupt
                            else if m = ''b.main'' then Inr (module_with ''app'' Function)
                            else Inl ModuleNotFoundError)\<rparr>"

text \<open>
  The package \<^verbatim>\<open>a/main/\<close> has \<^verbatim>\<open>app = 42\<close>, and the package \<^verbatim>\<open>b/asgi/\<close> defines a
  callable \<^verbatim>\<open>application\<close>.
\<close>

definition world_wild_plain :: world where
  "world_wild_plain = world_base
     \<lparr>glob_glob := (\<lambda>p. if p = ''*//main'' then [''a/main'']
                        else if p = ''*//asgi'' then [''b/asgi''] else []),
      import_module := (\<lambda>m. if m = ''a.main'' then Inr (module_with ''app'' PlainValue)
                            else if m = ''b.asgi''
                              then Inr (module_with ''application'' Function)
                            else Inl ModuleNotFoundError)\<rparr>"

text \<open>Settings with a key and a certificate, and settings that leave both blank.\<close>

definition settings_tls :: settings where
  "settings_tls = [''DEBUG'' \<mapsto> PyBool True,
     ''SSL_KEYFILE'' \<mapsto> PyStr ''key.pem'', ''SSL_CERTFILE'' \<mapsto> PyStr ''cert.pem'']"

definition settings_blank :: settings where
  "settings_blank = [''DEBUG'' \<mapsto> PyBool False,
     ''SSL_KEYFILE'' \<mapsto> PyStr [], ''SSL_CERTFILE'' \<mapsto> PyStr []]"

section \<open>Properties\<close>

subsection \<open>A string that is not a candidate\<close>

text \<open>
  C10. A string without the separator \<open>:\<close> is rejected by \<open>check_asgi_module\<close>: the
  result is \<open>False\<close>, no exception, and no effect at all happened, in particular no import
  was attempted.
\<close>

theorem check_asgi_module_no_colon:
  "CHR '':'' \<notin> set module_path \<Longrightarrow> check_asgi_module w module_path = (Inr False, [])"
  by (simp add: check_asgi_module_def)

theorem check_asgi_module_no_colon_witness:
  "CHR '':'' \<notin> set ''main'' \<and> check_asgi_module world_base ''main'' = (Inr False, [])"
  using check_asgi_module_no_colon [of "''main''" world_base] by simp

subsection \<open>What the handlers let through\<close>

lemma except_Exception_Inl: "fst (except_Exception r) = Inl e \<Longrightarrow> \<not> is_Exception e"
  by (cases r rule: except_Exception.cases) (auto split: if_splits)

lemma except_Exception_events: "ev \<in> set (snd (except_Exception r)) \<Longrightarrow> ev \<in> set (snd r)"
  by (cases r rule: except_Exception.cases) (auto split: if_splits)

lemma direct_no_Exception:
  "fst (check_asgi_module_direct w p) = Inl e \<Longrightarrow> \<not> is_Exception e"
  unfolding check_asgi_module_direct_def by (rule except_Exception_Inl)

lemma check_no_Exception:
  "fst (check_asgi_module w p) = Inl e \<Longrightarrow> \<not> is_Exception e"
  unfolding check_asgi_module_def by (rule except_Exception_Inl)

lemma split_colon_has_colon: "split_colon p = [m, a] \<Longrightarrow> CHR '':'' \<in> set p"
  by (auto simp: split_colon_def split: if_splits)

lemma direct_failure_outcome:
  assumes "split_colon p = [m, a]"
    and "import_module w m = Inl e \<or> (\<exists>md. import_module w m = Inr md \<and> md a = Inl e)"
  shows "check_asgi_module_direct w p
    = (if is_Exception e then Inr False else Inl e, [Import m])"
  using assms unfolding check_asgi_module_direct_def
  by (auto simp: hasattr_def)

lemma direct_True_resolves:
  assumes "fst (check_asgi_module_direct w p) = Inr True"
  shows "\<exists>m a md obj. split_colon p = [m, a] \<and> import_module w m = Inr md
    \<and> md a = Inr obj \<and> callable obj"
  using assms unfolding check_asgi_module_direct_def
  by (auto simp: hasattr_def split: list.splits sum.splits bool.splits if_splits)

text \<open>The handler of \<open>check_asgi_module\<close> adds nothing to that of the direct check.\<close>

lemma except_Exception_idem: "except_Exception (except_Exception r) = except_Exception r"
  by (cases r rule: except_Exception.cases) auto

lemma check_is_direct:
  assumes "split_colon p = [m, a]" and "CHR ''*'' \<notin> set m"
  shows "check_asgi_module w p = check_asgi_module_direct w p"
proof -
  have "except_Exception (check_asgi_module_direct w p) = check_asgi_module_direct w p"
    unfolding check_asgi_module_direct_def by (rule except_Exception_idem)
  with assms split_colon_has_colon [OF assms(1)] show ?thesis
    by (simp add: check_asgi_module_def)
qed

subsection \<open>The loop over the candidates\<close>

lemma find_loop_match:
  "fst (check_asgi_module w c) = Inr True \<Longrightarrow> fst (find_loop w (c # rest)) = Inr (Some c)"
  by (cases "check_asgi_module w c") auto

lemma find_loop_reject:
  "fst (check_asgi_module w c) = Inr False \<Longrightarrow>
   fst (find_loop w (c # rest)) = fst (find_loop w rest)"
  by (cases "check_asgi_module w c") (auto split: prod.splits)

lemma find_loop_rejected_prefix:
  "\<forall>p\<in>set pre. fst (check_asgi_module w p) = Inr False \<Longrightarrow>
   fst (find_loop w (pre @ rest)) = fst (find_loop w rest)"
proof (induction pre)
  case Nil
  then show ?case by simp
next
  case (Cons c pre)
  then have "fst (find_loop w (c # (pre @ rest))) = fst (find_loop w (pre @ rest))"
    by (intro find_loop_reject) simp
  with Cons show ?case by simp
qed

lemma find_loop_all_rejected:
  "\<forall>c\<in>set cs. fst (check_asgi_module w c) = Inr False \<Longrightarrow> fst (find_loop w cs) = Inr None"
  using find_loop_rejected_prefix [of cs w "[]"] by simp

text \<open>What the loop returns was checked, and a candidate checked directly is resolved.\<close>

lemma find_loop_result:
  "fst (find_loop w cs) = Inr (Some c) \<Longrightarrow>
   c \<in> set cs \<and> fst (check_asgi_module w c) = Inr True"
  by (induction cs) (auto split: prod.splits sum.splits bool.splits)

lemma find_direct_result_resolves:
  assumes "fst (find_asgi_application w) = Inr (Some c)"
    and "split_colon c = [m, a]" and "CHR ''*'' \<notin> set m"
  shows "\<exists>md obj. import_module w m = Inr md \<and> md a = Inr obj \<and> callable obj"
proof -
  from assms(1) have "fst (check_asgi_module w c) = Inr True"
    by (auto simp: find_asgi_application_def dest: find_loop_result)
  then have "fst (check_asgi_module_direct w c) = Inr True"
    using check_is_direct [OF assms(2,3), of w] by simp
  from direct_True_resolves [OF this] assms(2) show ?thesis
    by auto
qed

text \<open>Probing imports and lists directories; it neither prints nor starts the server.\<close>

lemma direct_events:
  "check_asgi_module_direct w p = (r, evs) \<Longrightarrow> ev \<in> set evs \<Longrightarrow> \<exists>m. ev = Import m"
proof -
  have "ev \<in> set (snd (check_asgi_module_direct w p)) \<Longrightarrow> \<exists>m. ev = Import m"
    unfolding check_asgi_module_direct_def
    by (auto split: list.splits sum.splits bool.splits if_splits
        dest!: except_Exception_events)
  then show "check_asgi_module_direct w p = (r, evs) \<Longrightarrow> ev \<in> set evs \<Longrightarrow> \<exists>m. ev = Import m"
    by simp
qed

lemma direct_events_snd:
  "ev \<in> set (snd (check_asgi_module_direct w p)) \<Longrightarrow> \<exists>m. ev = Import m"
  using direct_events [of w p "fst (check_asgi_module_direct w p)"
      "snd (check_asgi_module_direct w p)" ev]
  by simp

lemma paths_events:
  "check_paths w a paths = (r, evs) \<Longrightarrow> ev \<in> set evs \<Longrightarrow> \<exists>m. ev = Import m"
proof (induction paths arbitrary: r evs)
  case Nil
  then show ?case by simp
next
  case (Cons path paths)
  then show ?case
    by (auto simp: Let_def split: prod.splits sum.splits bool.splits dest: direct_events)
qed

lemma check_events:
  "check_asgi_module w p = (r, evs) \<Longrightarrow> ev \<in> set evs \<Longrightarrow>
   (\<exists>m. ev = Import m) \<or> (\<exists>g. ev = Glob g)"
proof -
  have "ev \<in> set (snd (check_asgi_module w p)) \<Longrightarrow> (\<exists>m. ev = Import m) \<or> (\<exists>g. ev = Glob g)"
    unfolding check_asgi_module_def
    by (auto simp: Let_def split: if_splits list.splits prod.splits
        dest!: except_Exception_events dest: direct_events_snd paths_events)
  then show "check_asgi_module w p = (r, evs) \<Longrightarrow> ev \<in> set evs \<Longrightarrow>
      (\<exists>m. ev = Import m) \<or> (\<exists>g. ev = Glob g)"
    by simp
qed

lemma find_loop_events:
  "ev \<in> set (snd (find_loop w cs)) \<Longrightarrow> (\<exists>m. ev = Import m) \<or> (\<exists>g. ev = Glob g)"
proof (induction cs)
  case Nil
  then show ?case by simp
next
  case (Cons c cs)
  then show ?case
    by (auto split: prod.splits sum.splits bool.splits dest: check_events)
qed

lemma find_no_run: "UvicornRun config \<notin> set (snd (find_asgi_application w))"
  using find_loop_events [of "UvicornRun config" w "candidates w"]
  by (auto simp: find_asgi_application_def)

subsection \<open>The loop over the expansions of a wildcard candidate\<close>

lemma check_paths_hit:
  "fst (check_asgi_module_direct w (test_path a path)) = Inr True \<Longrightarrow>
   fst (check_paths w a (path # paths)) = Inr True"
  by (cases "check_asgi_module_direct w (test_path a path)") auto

lemma check_paths_abort:
  "fst (check_asgi_module_direct w (test_path a path)) = Inl x \<Longrightarrow>
   fst (check_paths w a (path # paths)) = Inl x"
  by (cases "check_asgi_module_direct w (test_path a path)") auto

lemma check_paths_reject:
  "fst (check_asgi_module_direct w (test_path a path)) = Inr False \<Longrightarrow>
   fst (check_paths w a (path # paths)) = fst (check_paths w a paths)"
  by (cases "check_asgi_module_direct w (test_path a path)") (auto split: prod.splits)

lemma check_paths_rejected_prefix:
  "\<forall>q\<in>set pre. fst (check_asgi_module_direct w (test_path a q)) = Inr False \<Longrightarrow>
   fst (check_paths w a (pre @ rest)) = fst (check_paths w a rest)"
proof (induction pre)
  case Nil
  then show ?case by simp
next
  case (Cons q pre)
  then have "fst (check_paths w a (q # (pre @ rest))) = fst (check_paths w a (pre @ rest))"
    by (intro check_paths_reject) simp
  with Cons show ?case by simp
qed

lemma check_paths_all_rejected:
  "\<forall>q\<in>set paths. fst (check_asgi_module_direct w (test_path a q)) = Inr False \<Longrightarrow>
   fst (check_paths w a paths) = Inr False"
  using check_paths_rejected_prefix [of paths w a "[]"] by simp

text \<open>A rejected expansion counts for nothing, wherever it stands in the list.\<close>

lemma check_paths_skip:
  assumes "fst (check_asgi_module_direct w (test_path a path)) = Inr False"
  shows "fst (check_paths w a (pre @ path # post)) = fst (check_paths w a (pre @ post))"
proof (induction pre)
  case Nil
  from assms show ?case by (simp only: append_Nil check_paths_reject)
next
  case (Cons q pre)
  obtain r evs where q: "check_asgi_module_direct w (test_path a q) = (r, evs)"
    by (cases "check_asgi_module_direct w (test_path a q)") auto
  show ?case
  proof (cases r)
    case (Inl x)
    with q show ?thesis by simp
  next
    case (Inr b)
    with q Cons show ?thesis by (cases b) (auto split: prod.splits)
  qed
qed

lemma check_paths_no_Exception:
  "fst (check_paths w a paths) = Inl x \<Longrightarrow> \<not> is_Exception x"
proof (induction paths)
  case Nil
  then show ?case by simp
next
  case (Cons q paths)
  obtain r evs where q: "check_asgi_module_direct w (test_path a q) = (r, evs)"
    by (cases "check_asgi_module_direct w (test_path a q)") auto
  show ?case
  proof (cases r)
    case (Inl y)
    with q Cons.prems have "fst (check_asgi_module_direct w (test_path a q)) = Inl x"
      by simp
    then show ?thesis by (rule direct_no_Exception)
  next
    case (Inr b)
    with q Cons show ?thesis by (cases b) (auto split: prod.splits)
  qed
qed

lemma except_Exception_fst:
  "(\<And>x. fst r = Inl x \<Longrightarrow> \<not> is_Exception x) \<Longrightarrow> fst (except_Exception r) = fst r"
  by (cases r rule: except_Exception.cases) auto

text \<open>A wildcard candidate is checked through the paths that its pattern matches.\<close>

lemma check_is_paths:
  assumes "split_colon c = [m, a]" and "CHR ''*'' \<in> set m"
  shows "fst (check_asgi_module w c) = fst (check_paths w a (glob_glob w (replace ''*'' ''*/'' m)))"
proof -
  let ?paths = "glob_glob w (replace ''*'' ''*/'' m)"
  obtain r evs where r: "check_paths w a ?paths = (r, evs)"
    by (cases "check_paths w a ?paths") auto
  have "\<And>x. r = Inl x \<Longrightarrow> \<not> is_Exception x"
    using check_paths_no_Exception [of w a ?paths] r by simp
  then have "fst (except_Exception (r, Glob (replace ''*'' ''*/'' m) # evs)) = r"
    using except_Exception_fst [of "(r, Glob (replace ''*'' ''*/'' m) # evs)"] by simp
  with assms split_colon_has_colon [OF assms(1)] r show ?thesis
    by (simp add: check_asgi_module_def Let_def)
qed

text \<open>A rejected candidate counts for nothing, wherever it stands in the list.\<close>

lemma find_loop_skip:
  assumes "fst (check_asgi_module w c) = Inr False"
  shows "fst (find_loop w (pre @ c # rest)) = fst (find_loop w (pre @ rest))"
proof (induction pre)
  case Nil
  from assms show ?case by (simp only: append_Nil find_loop_reject)
next
  case (Cons q pre)
  obtain r evs where q: "check_asgi_module w q = (r, evs)"
    by (cases "check_asgi_module w q") auto
  show ?case
  proof (cases r)
    case (Inl x)
    with q show ?thesis by simp
  next
    case (Inr b)
    with q Cons show ?thesis by (cases b) (auto split: prod.splits)
  qed
qed

subsection \<open>The value the Locator returns\<close>

text \<open>
  C1. The claim is that every string returned by \<open>find_asgi_application\<close> names a module
  that imports and an attribute of it that is callable, so that the string is directly
  importable and not a wildcard pattern. The loop returns the candidate it was probing,
  and for a wildcard candidate that is the pattern, not the expansion that verified: in
  the project \<open>world_nested\<close> the result is the pattern \<^verbatim>\<open>*/main:app\<close>, whose module
  part \<^verbatim>\<open>*/main\<close> cannot be imported and which the direct check itself rejects.
\<close>

theorem find_asgi_application_returns_pattern:
  "find_asgi_application world_nested =
     (Inr (Some ''*/main:app''),
      [Import ''main'', Import ''asgi'', Import ''app'', Import ''application'',
       Glob ''*//main'', Import ''pkg.main''])
   \<and> import_module world_nested ''*/main'' = Inl ModuleNotFoundError
   \<and> check_asgi_module_direct world_nested ''*/main:app'' = (Inr False, [Import ''*/main''])"
  by (simp add: find_asgi_application_def candidates_def Let_def path_name_def
      check_asgi_module_def check_asgi_module_direct_def split_colon_def
      world_nested_def world_base_def test_path_def rstrip_def hasattr_def module_with_def)

subsection \<open>Failures while probing\<close>

text \<open>
  C4, as amended. A failure while a string is probed (the import of the module raises,
  or the lookup of the attribute raises) has one of two outcomes.

  If it is an instance of \<^verbatim>\<open>Exception\<close> (an import error, a missing module, a missing
  attribute, or any other such exception), the probe is a non-match and nothing is
  propagated: \<open>check_asgi_module_direct\<close> returns \<open>False\<close>; \<open>check_asgi_module\<close>
  returns \<open>False\<close> for a candidate that it checks directly; and for a wildcard candidate
  the failing expansion counts for nothing, the result being that of the other expansions
  in their order (\<open>True\<close> if one of them verifies, \<open>False\<close> if all are rejected).

  If it is not an instance of \<^verbatim>\<open>Exception\<close> (\<open>SystemExit\<close>, \<open>KeyboardInterrupt\<close>), it
  is propagated, since the handlers are \<^verbatim>\<open>except Exception\<close>: by
  \<open>check_asgi_module_direct\<close>, by \<open>check_asgi_module\<close> for a candidate checked directly,
  and by \<open>check_asgi_module\<close> for a wildcard candidate when the expansions before the
  failing one were rejected.

  Nothing else reaches the caller: no instance of \<^verbatim>\<open>Exception\<close> ever leaves
  \<open>check_asgi_module\<close> or \<open>check_asgi_module_direct\<close>, for any string and any project.
\<close>

theorem check_asgi_module_swallows_Exception:
  assumes "split_colon p = [m, a]"
    and "import_module w m = Inl e \<or> (\<exists>md. import_module w m = Inr md \<and> md a = Inl e)"
  shows "fst (check_asgi_module_direct w p) = (if is_Exception e then Inr False else Inl e)
    \<and> (CHR ''*'' \<notin> set m \<longrightarrow>
         fst (check_asgi_module w p) = (if is_Exception e then Inr False else Inl e))
    \<and> (\<forall>c mw aw pre path post.
         split_colon c = [mw, aw] \<longrightarrow> CHR ''*'' \<in> set mw \<longrightarrow>
         glob_glob w (replace ''*'' ''*/'' mw) = pre @ path # post \<longrightarrow>
         test_path aw path = p \<longrightarrow>
           (is_Exception e \<longrightarrow>
              fst (check_asgi_module w c) = fst (check_paths w aw (pre @ post)))
         \<and> (\<not> is_Exception e \<longrightarrow>
              (\<forall>q\<in>set pre. fst (check_asgi_module_direct w (test_path aw q)) = Inr False) \<longrightarrow>
              fst (check_asgi_module w c) = Inl e))
    \<and> (\<forall>aw pre path post.
         (\<forall>q\<in>set pre. fst (check_asgi_module_direct w (test_path aw q)) = Inr False) \<longrightarrow>
         fst (check_asgi_module_direct w (test_path aw path)) = Inr True \<longrightarrow>
         fst (check_paths w aw (pre @ path # post)) = Inr True)
    \<and> (\<forall>aw paths.
         (\<forall>q\<in>set paths. fst (check_asgi_module_direct w (test_path aw q)) = Inr False) \<longrightarrow>
         fst (check_paths w aw paths) = Inr False)
    \<and> (\<forall>q x. fst (check_asgi_module w q) = Inl x \<longrightarrow> \<not> is_Exception x)
    \<and> (\<forall>q x. fst (check_asgi_module_direct w q) = Inl x \<longrightarrow> \<not> is_Exception x)"
proof (intro conjI allI impI)
  show d: "fst (check_asgi_module_direct w p) = (if is_Exception e then Inr False else Inl e)"
    using direct_failure_outcome [OF assms] by simp
  show "fst (check_asgi_module w p) = (if is_Exception e then Inr False else Inl e)"
    if "CHR ''*'' \<notin> set m"
    using d check_is_direct [OF assms(1) that, of w] by simp
  show "fst (check_asgi_module w c) = fst (check_paths w aw (pre @ post))"
    if "split_colon c = [mw, aw]" "CHR ''*'' \<in> set mw"
      "glob_glob w (replace ''*'' ''*/'' mw) = pre @ path # post"
      "test_path aw path = p" "is_Exception e"
    for c mw aw pre path post
  proof -
    from d that(4,5) have "fst (check_asgi_module_direct w (test_path aw path)) = Inr False"
      by simp
    then have "fst (check_paths w aw (pre @ path # post)) = fst (check_paths w aw (pre @ post))"
      by (rule check_paths_skip)
    with check_is_paths [OF that(1,2), of w] that(3) show ?thesis
      by simp
  qed
  show "fst (check_asgi_module w c) = Inl e"
    if "split_colon c = [mw, aw]" "CHR ''*'' \<in> set mw"
      "glob_glob w (replace ''*'' ''*/'' mw) = pre @ path # post"
      "test_path aw path = p" "\<not> is_Exception e"
      "\<forall>q\<in>set pre. fst (check_asgi_module_direct w (test_path aw q)) = Inr False"
    for c mw aw pre path post
  proof -
    from d that(4,5) have "fst (check_asgi_module_direct w (test_path aw path)) = Inl e"
      by simp
    then have "fst (check_paths w aw (path # post)) = Inl e"
      by (rule check_paths_abort)
    with check_paths_rejected_prefix [OF that(6), of "path # post"]
    have "fst (check_paths w aw (pre @ path # post)) = Inl e"
      by simp
    with check_is_paths [OF that(1,2), of w] that(3) show ?thesis
      by simp
  qed
  show "fst (check_paths w aw (pre @ path # post)) = Inr True"
    if "\<forall>q\<in>set pre. fst (check_asgi_module_direct w (test_path aw q)) = Inr False"
      "fst (check_asgi_module_direct w (test_path aw path)) = Inr True"
    for aw pre path post
    using check_paths_rejected_prefix [OF that(1), of "path # post"]
      check_paths_hit [OF that(2), of post]
    by simp
  show "fst (check_paths w aw paths) = Inr False"
    if "\<forall>q\<in>set paths. fst (check_asgi_module_direct w (test_path aw q)) = Inr False"
    for aw paths
    using that by (rule check_paths_all_rejected)
  show "\<not> is_Exception x" if "fst (check_asgi_module w q) = Inl x" for q x
    using that by (rule check_no_Exception)
  show "\<not> is_Exception x" if "fst (check_asgi_module_direct w q) = Inl x" for q x
    using that by (rule direct_no_Exception)
qed

text \<open>
  Failures that are swallowed: in \<open>world_broken\<close> the import of \<^verbatim>\<open>main\<close> raises an
  exception of the module's own code, in \<open>world_base\<close> the module is missing, in
  \<open>world_plain\<close> the module \<^verbatim>\<open>asgi\<close> has no attribute \<^verbatim>\<open>app\<close>, and in
  \<open>world_wild\<close> the first expansion of \<^verbatim>\<open>*/main:app\<close> raises \<open>ImportError\<close>, so that
  the candidate is checked as if \<^verbatim>\<open>b/main\<close> were its only expansion. A failure that is
  propagated: in \<open>world_wild_interrupt\<close> the import of that first expansion is
  interrupted.
\<close>

theorem check_asgi_module_swallows_Exception_witness:
  "split_colon ''main:app'' = [''main'', ''app'']
   \<and> CHR ''*'' \<notin> set ''main''
   \<and> import_module world_broken ''main'' = Inl (OtherException ''ZeroDivisionError'')
   \<and> is_Exception (OtherException ''ZeroDivisionError'')
   \<and> fst (check_asgi_module_direct world_broken ''main:app'') = Inr False
   \<and> fst (check_asgi_module world_broken ''main:app'') = Inr False
   \<and> import_module world_base ''main'' = Inl ModuleNotFoundError
   \<and> fst (check_asgi_module world_base ''main:app'') = Inr False
   \<and> import_module world_plain ''asgi'' = Inr (module_with ''application'' Function)
   \<and> module_with ''application'' Function ''app'' = Inl AttributeError
   \<and> fst (check_asgi_module world_plain ''asgi:app'') = Inr False
   \<and> split_colon ''*/main:app'' = [''*/main'', ''app'']
   \<and> CHR ''*'' \<in> set ''*/main''
   \<and> glob_glob world_wild (replace ''*'' ''*/'' ''*/main'') = [] @ ''a/main'' # [''b/main'']
   \<and> test_path ''app'' ''a/main'' = ''a.main:app''
   \<and> split_colon ''a.main:app'' = [''a.main'', ''app'']
   \<and> import_module world_wild ''a.main'' = Inl ImportError
   \<and> is_Exception ImportError
   \<and> fst (check_asgi_module world_wild ''*/main:app'')
       = fst (check_paths world_wild ''app'' [''b/main''])
   \<and> import_module world_wild_interrupt ''a.main'' = Inl KeyboardInterrupt
   \<and> \<not> is_Exception KeyboardInterrupt
   \<and> glob_glob world_wild_interrupt (replace ''*'' ''*/'' ''*/main'')
       = [] @ ''a/main'' # [''b/main'']
   \<and> fst (check_asgi_module world_wild_interrupt ''*/main:app'') = Inl KeyboardInterrupt"
proof -
  have s: "split_colon ''main:app'' = [''main'', ''app'']"
    "split_colon ''asgi:app'' = [''asgi'', ''app'']"
    "split_colon ''a.main:app'' = [''a.main'', ''app'']"
    "split_colon ''*/main:app'' = [''*/main'', ''app'']"
    by (simp_all add: split_colon_def)
  have t: "test_path ''app'' ''a/main'' = ''a.main:app''"
    by (simp add: test_path_def rstrip_def)
  have g: "glob_glob world_wild (replace ''*'' ''*/'' ''*/main'') = [] @ ''a/main'' # [''b/main'']"
    "glob_glob world_wild_interrupt (replace ''*'' ''*/'' ''*/main'')
       = [] @ ''a/main'' # [''b/main'']"
    by (simp_all add: world_wild_def world_wild_interrupt_def world_base_def)
  have i: "import_module world_broken ''main'' = Inl (OtherException ''ZeroDivisionError'')"
    "import_module world_base ''main'' = Inl ModuleNotFoundError"
    "import_module world_plain ''asgi'' = Inr (module_with ''application'' Function)"
    "module_with ''application'' Function ''app'' = Inl AttributeError"
    "import_module world_wild ''a.main'' = Inl ImportError"
    "import_module world_wild_interrupt ''a.main'' = Inl KeyboardInterrupt"
    by (simp_all add: world_broken_def world_plain_def world_wild_def
        world_wild_interrupt_def world_base_def module_with_def)
  note th = check_asgi_module_swallows_Exception
  from th [of "''main:app''" "''main''" "''app''" world_broken
      "OtherException ''ZeroDivisionError''"] s i
  have 1: "fst (check_asgi_module_direct world_broken ''main:app'') = Inr False"
    "fst (check_asgi_module world_broken ''main:app'') = Inr False"
    by simp_all
  from th [of "''main:app''" "''main''" "''app''" world_base ModuleNotFoundError] s i
  have 2: "fst (check_asgi_module world_base ''main:app'') = Inr False"
    by simp
  from th [of "''asgi:app''" "''asgi''" "''app''" world_plain AttributeError] s i
  have 3: "fst (check_asgi_module world_plain ''asgi:app'') = Inr False"
    by simp
  from th [of "''a.main:app''" "''a.main''" "''app''" world_wild ImportError] s i
  have "\<forall>c mw aw pre path post.
         split_colon c = [mw, aw] \<longrightarrow> CHR ''*'' \<in> set mw \<longrightarrow>
         glob_glob world_wild (replace ''*'' ''*/'' mw) = pre @ path # post \<longrightarrow>
         test_path aw path = ''a.main:app'' \<longrightarrow>
         fst (check_asgi_module world_wild c) = fst (check_paths world_wild aw (pre @ post))"
    by simp
  with s(4) g(1) t
  have 4: "fst (check_asgi_module world_wild ''*/main:app'')
      = fst (check_paths world_wild ''app'' ([] @ [''b/main'']))"
    by (metis list.set_intros(1))
  from th [of "''a.main:app''" "''a.main''" "''app''" world_wild_interrupt KeyboardInterrupt]
    s i
  have "\<forall>c mw aw pre path post.
         split_colon c = [mw, aw] \<longrightarrow> CHR ''*'' \<in> set mw \<longrightarrow>
         glob_glob world_wild_interrupt (replace ''*'' ''*/'' mw) = pre @ path # post \<longrightarrow>
         test_path aw path = ''a.main:app'' \<longrightarrow>
         (\<forall>q\<in>set pre. fst (check_asgi_module_direct world_wild_interrupt (test_path aw q))
            = Inr False) \<longrightarrow>
         fst (check_asgi_module world_wild_interrupt c) = Inl KeyboardInterrupt"
    by simp
  with s(4) g(2) t
  have 5: "fst (check_asgi_module world_wild_interrupt ''*/main:app'') = Inl KeyboardInterrupt"
    by (metis empty_iff list.set_intros(1) empty_set)
  from s t g i 1 2 3 4 5 show ?thesis
    by simp
qed

text \<open>
  C4 as stated fails: in \<open>world_exit\<close> the import of \<^verbatim>\<open>main\<close> raises \<open>SystemExit\<close>,
  and both checks propagate it to their caller instead of returning \<open>False\<close>. And in
  \<open>world_wild\<close> a failure occurs while the candidate \<^verbatim>\<open>*/main:app\<close> is verified (the
  import of its first expansion raises \<open>ImportError\<close>), yet \<open>check_asgi_module\<close>
  returns \<open>True\<close> for it, because its second expansion verifies.
\<close>

theorem check_asgi_module_propagates_SystemExit:
  "import_module world_exit ''main'' = Inl (SystemExit 0)
   \<and> check_asgi_module_direct world_exit ''main:app'' = (Inl (SystemExit 0), [Import ''main''])
   \<and> check_asgi_module world_exit ''main:app'' = (Inl (SystemExit 0), [Import ''main''])
   \<and> import_module world_wild ''a.main'' = Inl ImportError
   \<and> check_asgi_module world_wild ''*/main:app''
       = (Inr True, [Glob ''*//main'', Import ''a.main'', Import ''b.main''])"
  by (simp add: check_asgi_module_def check_asgi_module_direct_def split_colon_def
      test_path_def rstrip_def hasattr_def module_with_def
      world_exit_def world_wild_def world_base_def)

subsection \<open>First match wins\<close>

text \<open>
  C2, as amended. When a candidate verifies and every candidate before it in the list
  was probed to the end and rejected (its check returned \<open>False\<close>, no probe was cut
  short by an exception that the handlers let through), \<open>find_asgi_application\<close> returns
  that candidate, the first that verifies, whatever the later candidates do. In
  particular, when \<^verbatim>\<open>main:app\<close> verifies the result is \<^verbatim>\<open>main:app\<close>, whether or not
  \<^verbatim>\<open>asgi:application\<close> verifies too.
\<close>

theorem find_asgi_application_first_match:
  "(candidates w = pre @ c # post \<longrightarrow>
      (\<forall>p\<in>set pre. fst (check_asgi_module w p) = Inr False) \<longrightarrow>
      fst (check_asgi_module w c) = Inr True \<longrightarrow>
      fst (find_asgi_application w) = Inr (Some c))
   \<and> (fst (check_asgi_module w ''main:app'') = Inr True \<longrightarrow>
      fst (find_asgi_application w) = Inr (Some ''main:app''))"
proof (intro conjI impI)
  assume "candidates w = pre @ c # post"
    and "\<forall>p\<in>set pre. fst (check_asgi_module w p) = Inr False"
    and "fst (check_asgi_module w c) = Inr True"
  then show "fst (find_asgi_application w) = Inr (Some c)"
    by (simp only: find_asgi_application_def find_loop_rejected_prefix find_loop_match)
next
  assume "fst (check_asgi_module w ''main:app'') = Inr True"
  then show "fst (find_asgi_application w) = Inr (Some ''main:app'')"
    unfolding find_asgi_application_def candidates_def Let_def
    by (simp only: append_Cons find_loop_match)
qed

text \<open>
  Two projects in which two candidates verify: in \<open>world_two\<close> they are
  \<^verbatim>\<open>asgi:application\<close> and \<^verbatim>\<open>app:app\<close>, after the rejected \<^verbatim>\<open>main:app\<close>; in
  \<open>world_both\<close> they are \<^verbatim>\<open>main:app\<close> and \<^verbatim>\<open>asgi:application\<close>.
\<close>

theorem find_asgi_application_first_match_witness:
  "candidates world_two = [''main:app''] @ ''asgi:application'' #
       [''app:app'', ''application:app'', ''*/main:app'', ''*/asgi:application'',
        ''*/app:app'', ''shop.main:app'', ''shop.asgi:application'',
        ''shop/main:app'', ''shop/asgi:application'']
   \<and> fst (check_asgi_module world_two ''main:app'') = Inr False
   \<and> fst (check_asgi_module world_two ''asgi:application'') = Inr True
   \<and> fst (check_asgi_module world_two ''app:app'') = Inr True
   \<and> fst (find_asgi_application world_two) = Inr (Some ''asgi:application'')
   \<and> fst (check_asgi_module world_both ''main:app'') = Inr True
   \<and> fst (check_asgi_module world_both ''asgi:application'') = Inr True
   \<and> fst (find_asgi_application world_both) = Inr (Some ''main:app'')"
  using find_asgi_application_first_match
    [of world_two "[''main:app'']" "''asgi:application''"
      "[''app:app'', ''application:app'', ''*/main:app'', ''*/asgi:application'',
        ''*/app:app'', ''shop.main:app'', ''shop.asgi:application'',
        ''shop/main:app'', ''shop/asgi:application'']"]
    find_asgi_application_first_match [of world_both]
  by (simp add: candidates_def Let_def path_name_def check_asgi_module_def
      check_asgi_module_direct_def split_colon_def hasattr_def module_with_def
      world_two_def world_both_def world_base_def)

text \<open>
  C2 as stated fails: in \<open>world_exit_two\<close> the candidates \<^verbatim>\<open>asgi:application\<close> and
  \<^verbatim>\<open>app:app\<close> verify, but the probe of \<^verbatim>\<open>main:app\<close> before them raises
  \<open>SystemExit\<close>, and \<open>find_asgi_application\<close> returns no candidate at all.
\<close>

theorem find_asgi_application_aborted:
  "fst (check_asgi_module world_exit_two ''asgi:application'') = Inr True
   \<and> fst (check_asgi_module world_exit_two ''app:app'') = Inr True
   \<and> fst (check_asgi_module world_exit_two ''main:app'') = Inl (SystemExit 0)
   \<and> find_asgi_application world_exit_two = (Inl (SystemExit 0), [Import ''main''])"
  by (simp add: find_asgi_application_def candidates_def Let_def path_name_def
      check_asgi_module_def check_asgi_module_direct_def split_colon_def hasattr_def
      module_with_def world_exit_two_def world_base_def)

subsection \<open>No match\<close>

text \<open>
  C3, as amended. When the probe of every candidate runs to the end and rejects it
  (every check returns \<open>False\<close>), \<open>find_asgi_application\<close> returns \<open>None\<close>, and
  \<open>run_development_server\<close> ends with \<open>SystemExit 1\<close>, has printed an explanatory
  message (that no application was found or, when \<^verbatim>\<open>uvicorn\<close> is not installed, that it
  is required) and has not called \<^verbatim>\<open>uvicorn.run\<close>.
\<close>

theorem no_candidate_exits:
  assumes "\<forall>c\<in>set (candidates w). fst (check_asgi_module w c) = Inr False"
  shows "fst (find_asgi_application w) = Inr None
    \<and> fst (run_development_server w host port reload workers settings) = Inl (SystemExit 1)
    \<and> (\<forall>config. UvicornRun config
          \<notin> set (snd (run_development_server w host port reload workers settings)))
    \<and> Print (if uvicorn_available w then ''Error: Could not find ASGI application.''
              else ''Error: uvicorn is required to run the server.'')
          \<in> set (snd (run_development_server w host port reload workers settings))"
proof -
  have none: "fst (find_asgi_application w) = Inr None"
    using assms by (simp add: find_asgi_application_def find_loop_all_rejected)
  then obtain evs where f: "find_asgi_application w = (Inr None, evs)"
    by (cases "find_asgi_application w") auto
  have "\<And>config. UvicornRun config \<notin> set evs"
    using find_no_run [of _ w] f by simp
  with none f show ?thesis
    by (simp add: run_development_server_def)
qed

text \<open>In \<open>world_base\<close> no module can be imported.\<close>

theorem no_candidate_exits_witness:
  "list_all (\<lambda>c. fst (check_asgi_module world_base c) = Inr False) (candidates world_base)
   \<and> fst (find_asgi_application world_base) = Inr None
   \<and> fst (run_development_server world_base ''127.0.0.1'' 8000 False 1 None)
       = Inl (SystemExit 1)
   \<and> Print ''Error: Could not find ASGI application.''
       \<in> set (snd (run_development_server world_base ''127.0.0.1'' 8000 False 1 None))"
proof -
  have h: "\<forall>c\<in>set (candidates world_base). fst (check_asgi_module world_base c) = Inr False"
    by (simp add: candidates_def Let_def path_name_def check_asgi_module_def
        check_asgi_module_direct_def split_colon_def world_base_def)
  have u: "uvicorn_available world_base"
    by (simp add: world_base_def)
  from h have "list_all (\<lambda>c. fst (check_asgi_module world_base c) = Inr False)
      (candidates world_base)"
    by (simp add: list_all_iff)
  with no_candidate_exits [OF h, of "''127.0.0.1''" 8000 False 1 None] u show ?thesis
    by simp
qed

text \<open>
  C3 as stated fails: in \<open>world_exit\<close> no candidate verifies, but the first probe raises
  \<open>SystemExit 0\<close>: \<open>find_asgi_application\<close> does not return \<open>None\<close>, and
  \<open>run_development_server\<close> ends with exit status 0 and has printed nothing.
\<close>

theorem no_candidate_exit_status_zero:
  "list_all (\<lambda>c. fst (check_asgi_module world_exit c) \<noteq> Inr True) (candidates world_exit)
   \<and> find_asgi_application world_exit = (Inl (SystemExit 0), [Import ''main''])
   \<and> run_development_server world_exit ''127.0.0.1'' 8000 False 1 None
       = (Inl (SystemExit 0), [Import ''main''])"
  by (simp add: run_development_server_def find_asgi_application_def candidates_def Let_def
      path_name_def check_asgi_module_def check_asgi_module_direct_def split_colon_def
      world_exit_def world_base_def)

subsection \<open>An attribute that is not callable\<close>

text \<open>
  C5. When a string is probed whose module imports and whose named attribute exists but
  is not callable, \<open>check_asgi_module_direct\<close> returns \<open>False\<close>, and the Locator goes on
  with what remains, in order.

  For a candidate that the Locator checks directly, \<open>check_asgi_module\<close> returns
  \<open>False\<close> and the search gives what it gives without that candidate: the loop goes on
  with the candidates after it.

  For a wildcard candidate, where the probed string is one of the expansions, that
  expansion counts for nothing: the candidate is checked as if the pattern had not matched
  that path, the loop going on with the expansions after it. When the other expansions are
  rejected too, the wildcard candidate is a non-match, \<open>check_asgi_module\<close> returns
  \<open>False\<close> for it and the search goes on with the candidates after it.
\<close>

theorem not_callable_is_no_match:
  assumes "split_colon p = [m, a]"
    and "import_module w m = Inr md" and "md a = Inr obj" and "\<not> callable obj"
  shows "fst (check_asgi_module_direct w p) = Inr False
    \<and> (CHR ''*'' \<notin> set m \<longrightarrow>
         fst (check_asgi_module w p) = Inr False
       \<and> fst (find_loop w (p # rest)) = fst (find_loop w rest)
       \<and> (\<forall>pre. fst (find_loop w (pre @ p # rest)) = fst (find_loop w (pre @ rest)))
       \<and> (\<forall>pre. candidates w = pre @ p # rest
             \<longrightarrow> fst (find_asgi_application w) = fst (find_loop w (pre @ rest)))
       \<and> (\<forall>pre. candidates w = pre @ p # rest
             \<longrightarrow> (\<forall>q\<in>set pre. fst (check_asgi_module w q) = Inr False)
             \<longrightarrow> fst (find_asgi_application w) = fst (find_loop w rest)))
    \<and> (\<forall>c mw aw before path after.
         split_colon c = [mw, aw] \<longrightarrow> CHR ''*'' \<in> set mw \<longrightarrow>
         glob_glob w (replace ''*'' ''*/'' mw) = before @ path # after \<longrightarrow>
         test_path aw path = p \<longrightarrow>
           fst (check_paths w aw (path # after)) = fst (check_paths w aw after)
         \<and> fst (check_asgi_module w c) = fst (check_paths w aw (before @ after))
         \<and> ((\<forall>q\<in>set (before @ after).
                 fst (check_asgi_module_direct w (test_path aw q)) = Inr False) \<longrightarrow>
               fst (check_asgi_module w c) = Inr False
             \<and> fst (find_loop w (c # rest)) = fst (find_loop w rest)
             \<and> (\<forall>pre. fst (find_loop w (pre @ c # rest)) = fst (find_loop w (pre @ rest)))
             \<and> (\<forall>pre. candidates w = pre @ c # rest
                   \<longrightarrow> (\<forall>q\<in>set pre. fst (check_asgi_module w q) = Inr False)
                   \<longrightarrow> fst (find_asgi_application w) = fst (find_loop w rest))))"
proof -
  have d: "fst (check_asgi_module_direct w p) = Inr False"
    using assms unfolding check_asgi_module_direct_def by (simp add: hasattr_def)
  have loop: "fst (find_loop w (q # rest)) = fst (find_loop w rest)
      \<and> (\<forall>pre. fst (find_loop w (pre @ q # rest)) = fst (find_loop w (pre @ rest)))
      \<and> (\<forall>pre. candidates w = pre @ q # rest
            \<longrightarrow> fst (find_asgi_application w) = fst (find_loop w (pre @ rest)))
      \<and> (\<forall>pre. candidates w = pre @ q # rest
            \<longrightarrow> (\<forall>q\<in>set pre. fst (check_asgi_module w q) = Inr False)
            \<longrightarrow> fst (find_asgi_application w) = fst (find_loop w rest))"
    if r: "fst (check_asgi_module w q) = Inr False" for q
  proof (intro conjI allI impI)
    show "fst (find_loop w (q # rest)) = fst (find_loop w rest)"
      using r by (rule find_loop_reject)
    show "fst (find_loop w (pre @ q # rest)) = fst (find_loop w (pre @ rest))" for pre
      using r by (rule find_loop_skip)
    then show "fst (find_asgi_application w) = fst (find_loop w (pre @ rest))"
      if "candidates w = pre @ q # rest" for pre
      using that by (simp only: find_asgi_application_def)
    show "fst (find_asgi_application w) = fst (find_loop w rest)"
      if "candidates w = pre @ q # rest"
        "\<forall>q\<in>set pre. fst (check_asgi_module w q) = Inr False" for pre
      using that r
      by (simp only: find_asgi_application_def find_loop_rejected_prefix find_loop_reject)
  qed
  have direct: "fst (check_asgi_module w p) = Inr False" if "CHR ''*'' \<notin> set m"
    using d check_is_direct [OF assms(1) that, of w] by simp
  have wild: "fst (check_paths w aw (path # after)) = fst (check_paths w aw after)
      \<and> fst (check_asgi_module w c) = fst (check_paths w aw (before @ after))
      \<and> ((\<forall>q\<in>set (before @ after).
              fst (check_asgi_module_direct w (test_path aw q)) = Inr False) \<longrightarrow>
            fst (check_asgi_module w c) = Inr False)"
    if "split_colon c = [mw, aw]" "CHR ''*'' \<in> set mw"
      "glob_glob w (replace ''*'' ''*/'' mw) = before @ path # after"
      "test_path aw path = p"
    for c mw aw before path after
  proof -
    from d that(4) have x: "fst (check_asgi_module_direct w (test_path aw path)) = Inr False"
      by simp
    have 1: "fst (check_paths w aw (path # after)) = fst (check_paths w aw after)"
      using x by (rule check_paths_reject)
    have "fst (check_paths w aw (before @ path # after))
        = fst (check_paths w aw (before @ after))"
      using x by (rule check_paths_skip)
    with check_is_paths [OF that(1,2), of w] that(3)
    have 2: "fst (check_asgi_module w c) = fst (check_paths w aw (before @ after))"
      by simp
    have "fst (check_asgi_module w c) = Inr False"
      if "\<forall>q\<in>set (before @ after).
            fst (check_asgi_module_direct w (test_path aw q)) = Inr False"
      using 2 check_paths_all_rejected [OF that] by simp
    with 1 2 show ?thesis
      by blast
  qed
  show ?thesis
    using d direct loop wild by (intro conjI allI impI) blast+
qed

text \<open>
  In \<open>world_plain\<close> the attribute \<^verbatim>\<open>app\<close> of \<^verbatim>\<open>main\<close> is a plain value; the search goes
  on and finds \<^verbatim>\<open>asgi:application\<close>. In \<open>world_wild_plain\<close> the only expansion of
  \<^verbatim>\<open>*/main:app\<close> has a plain value as \<^verbatim>\<open>app\<close>; the candidate is a non-match, and the
  search goes on and finds \<^verbatim>\<open>*/asgi:application\<close>.
\<close>

theorem not_callable_is_no_match_witness:
  "split_colon ''main:app'' = [''main'', ''app'']
   \<and> import_module world_plain ''main'' = Inr (module_with ''app'' PlainValue)
   \<and> module_with ''app'' PlainValue ''app'' = Inr PlainValue
   \<and> \<not> callable PlainValue
   \<and> CHR ''*'' \<notin> set ''main''
   \<and> candidates world_plain = [] @ ''main:app'' #
       [''asgi:application'', ''app:app'', ''application:app'', ''*/main:app'',
        ''*/asgi:application'', ''*/app:app'', ''shop.main:app'', ''shop.asgi:application'',
        ''shop/main:app'', ''shop/asgi:application'']
   \<and> fst (check_asgi_module_direct world_plain ''main:app'') = Inr False
   \<and> fst (check_asgi_module world_plain ''main:app'') = Inr False
   \<and> fst (find_asgi_application world_plain) = Inr (Some ''asgi:application'')
   \<and> split_colon ''a.main:app'' = [''a.main'', ''app'']
   \<and> import_module world_wild_plain ''a.main'' = Inr (module_with ''app'' PlainValue)
   \<and> split_colon ''*/main:app'' = [''*/main'', ''app'']
   \<and> CHR ''*'' \<in> set ''*/main''
   \<and> glob_glob world_wild_plain (replace ''*'' ''*/'' ''*/main'') = [] @ ''a/main'' # []
   \<and> test_path ''app'' ''a/main'' = ''a.main:app''
   \<and> candidates world_wild_plain =
       [''main:app'', ''asgi:application'', ''app:app'', ''application:app'']
       @ ''*/main:app'' #
       [''*/asgi:application'', ''*/app:app'', ''shop.main:app'', ''shop.asgi:application'',
        ''shop/main:app'', ''shop/asgi:application'']
   \<and> list_all (\<lambda>q. fst (check_asgi_module world_wild_plain q) = Inr False)
       [''main:app'', ''asgi:application'', ''app:app'', ''application:app'']
   \<and> fst (check_asgi_module_direct world_wild_plain ''a.main:app'') = Inr False
   \<and> fst (check_asgi_module world_wild_plain ''*/main:app'') = Inr False
   \<and> fst (find_asgi_application world_wild_plain) = Inr (Some ''*/asgi:application'')"
proof -
  let ?rest = "[''asgi:application'', ''app:app'', ''application:app'', ''*/main:app'',
        ''*/asgi:application'', ''*/app:app'', ''shop.main:app'', ''shop.asgi:application'',
        ''shop/main:app'', ''shop/asgi:application'']"
  let ?direct = "[''main:app'', ''asgi:application'', ''app:app'', ''application:app'']"
  let ?after = "[''*/asgi:application'', ''*/app:app'', ''shop.main:app'',
        ''shop.asgi:application'', ''shop/main:app'', ''shop/asgi:application'']"
  note th = not_callable_is_no_match
  have s: "split_colon ''main:app'' = [''main'', ''app'']"
    "split_colon ''a.main:app'' = [''a.main'', ''app'']"
    "split_colon ''*/main:app'' = [''*/main'', ''app'']"
    by (simp_all add: split_colon_def)
  have i: "import_module world_plain ''main'' = Inr (module_with ''app'' PlainValue)"
    "import_module world_wild_plain ''a.main'' = Inr (module_with ''app'' PlainValue)"
    by (simp_all add: world_plain_def world_wild_plain_def world_base_def)
  have g: "module_with ''app'' PlainValue ''app'' = Inr PlainValue"
    by (simp add: module_with_def)
  have n: "\<not> callable PlainValue"
    by simp
  have c: "candidates world_plain = [] @ ''main:app'' # ?rest"
    "candidates world_wild_plain = ?direct @ ''*/main:app'' # ?after"
    by (simp_all add: candidates_def Let_def path_name_def world_plain_def
        world_wild_plain_def world_base_def)
  have r: "fst (find_loop world_plain ?rest) = Inr (Some ''asgi:application'')"
    by (simp add: check_asgi_module_def check_asgi_module_direct_def split_colon_def
        hasattr_def module_with_def world_plain_def world_base_def)
  have 1: "fst (check_asgi_module_direct world_plain ''main:app'') = Inr False"
    "fst (check_asgi_module world_plain ''main:app'') = Inr False"
    "fst (find_asgi_application world_plain) = Inr (Some ''asgi:application'')"
    using th [OF s(1) i(1) g n, of ?rest] c(1) r by simp_all
  have gl: "glob_glob world_wild_plain (replace ''*'' ''*/'' ''*/main'') = [] @ ''a/main'' # []"
    by (simp add: world_wild_plain_def world_base_def)
  have t: "test_path ''app'' ''a/main'' = ''a.main:app''"
    by (simp add: test_path_def rstrip_def)
  have pre: "\<forall>q\<in>set ?direct. fst (check_asgi_module world_wild_plain q) = Inr False"
    by (simp add: check_asgi_module_def check_asgi_module_direct_def split_colon_def
        world_wild_plain_def world_base_def)
  have r': "fst (find_loop world_wild_plain ?after) = Inr (Some ''*/asgi:application'')"
    by (simp add: check_asgi_module_def check_asgi_module_direct_def split_colon_def
        test_path_def rstrip_def hasattr_def module_with_def world_wild_plain_def
        world_base_def)
  from th [OF s(2) i(2) g n, of ?after]
  have 2: "fst (check_asgi_module_direct world_wild_plain ''a.main:app'') = Inr False"
    and w: "\<forall>c mw aw before path after.
         split_colon c = [mw, aw] \<longrightarrow> CHR ''*'' \<in> set mw \<longrightarrow>
         glob_glob world_wild_plain (replace ''*'' ''*/'' mw) = before @ path # after \<longrightarrow>
         test_path aw path = ''a.main:app'' \<longrightarrow>
           ((\<forall>q\<in>set (before @ after).
                 fst (check_asgi_module_direct world_wild_plain (test_path aw q))
                   = Inr False) \<longrightarrow>
               fst (check_asgi_module world_wild_plain c) = Inr False
             \<and> (\<forall>pre. candidates world_wild_plain = pre @ c # ?after
                   \<longrightarrow> (\<forall>q\<in>set pre. fst (check_asgi_module world_wild_plain q) = Inr False)
                   \<longrightarrow> fst (find_asgi_application world_wild_plain)
                       = fst (find_loop world_wild_plain ?after)))"
    by blast+
  from w s(3) gl t
  have "fst (check_asgi_module world_wild_plain ''*/main:app'') = Inr False
      \<and> (\<forall>pre. candidates world_wild_plain = pre @ ''*/main:app'' # ?after
            \<longrightarrow> (\<forall>q\<in>set pre. fst (check_asgi_module world_wild_plain q) = Inr False)
            \<longrightarrow> fst (find_asgi_application world_wild_plain)
                = fst (find_loop world_wild_plain ?after))"
    by (metis append_Nil empty_iff empty_set list.set_intros(1))
  with c(2) pre r'
  have 3: "fst (check_asgi_module world_wild_plain ''*/main:app'') = Inr False"
    "fst (find_asgi_application world_wild_plain) = Inr (Some ''*/asgi:application'')"
    by simp_all
  from pre have 4: "list_all (\<lambda>q. fst (check_asgi_module world_wild_plain q) = Inr False) ?direct"
    by (simp only: list_all_iff)
  from s i g n c 1 2 3 4 gl t show ?thesis
    by simp
qed

subsection \<open>The configuration handed to the server runner\<close>

lemma find_events_no_run:
  "find_asgi_application w = (r, evs) \<Longrightarrow> UvicornRun config \<notin> set evs"
  using find_no_run [of config w] by simp

text \<open>Whenever the server runner is called, it is with the mapping the function built.\<close>

lemma run_config:
  assumes "UvicornRun config
      \<in> set (snd (run_development_server w host port reload workers settings))"
  shows "\<exists>app_module level. config = add_ssl settings
      [''app'' \<mapsto> PyStr app_module,
       ''host'' \<mapsto> PyStr host,
       ''port'' \<mapsto> PyInt port,
       ''reload'' \<mapsto> PyBool reload,
       ''workers'' \<mapsto> PyInt (if \<not> reload then workers else 1),
       ''log_level'' \<mapsto> PyStr level,
       ''access_log'' \<mapsto> PyBool True]"
  using assms unfolding run_development_server_def Let_def
  by (auto split: if_splits prod.splits sum.splits option.splits
      dest: find_events_no_run)

lemma add_ssl_other:
  "k \<noteq> ''ssl_keyfile'' \<Longrightarrow> k \<noteq> ''ssl_certfile'' \<Longrightarrow> add_ssl settings config k = config k"
  by (auto simp: add_ssl_def split: option.splits)

text \<open>
  C7. Whenever \<open>run_development_server\<close> calls the server runner, the entry
  \<^verbatim>\<open>workers\<close> of the configuration mapping is 1 if \<open>reload\<close> is true, whatever worker
  count was given, and the given worker count if \<open>reload\<close> is false.
\<close>

theorem workers_forced_to_one_on_reload:
  assumes "UvicornRun config
      \<in> set (snd (run_development_server w host port reload workers settings))"
  shows "config ''workers'' = Some (PyInt (if reload then 1 else workers))"
proof -
  from run_config [OF assms] obtain app_module level where
    "config = add_ssl settings
      [''app'' \<mapsto> PyStr app_module,
       ''host'' \<mapsto> PyStr host,
       ''port'' \<mapsto> PyInt port,
       ''reload'' \<mapsto> PyBool reload,
       ''workers'' \<mapsto> PyInt (if \<not> reload then workers else 1),
       ''log_level'' \<mapsto> PyStr level,
       ''access_log'' \<mapsto> PyBool True]"
    by blast
  then show ?thesis
    by (simp add: add_ssl_other)
qed

text \<open>
  In \<open>world_both\<close> the application is found and the server runner is called: with
  \<open>reload\<close> and four workers the mapping has one worker, without \<open>reload\<close> it has
  the four.
\<close>

theorem workers_forced_to_one_on_reload_witness:
  "(\<exists>config. UvicornRun config
        \<in> set (snd (run_development_server world_both ''127.0.0.1'' 8000 True 4 None))
      \<and> config ''workers'' = Some (PyInt 1))
   \<and> (\<exists>config. UvicornRun config
        \<in> set (snd (run_development_server world_both ''127.0.0.1'' 8000 False 4 None))
      \<and> config ''workers'' = Some (PyInt 4))"
proof -
  have f: "find_asgi_application world_both = (Inr (Some ''main:app''), [Import ''main''])"
    by (simp add: find_asgi_application_def candidates_def Let_def path_name_def
        check_asgi_module_def check_asgi_module_direct_def split_colon_def hasattr_def
        module_with_def world_both_def world_base_def)
  have u: "uvicorn_available world_both" "uvicorn_run world_both = (\<lambda>_. None)"
    by (simp_all add: world_both_def world_base_def)
  have "\<exists>config. UvicornRun config
      \<in> set (snd (run_development_server world_both ''127.0.0.1'' 8000 True 4 None))"
    by (simp add: run_development_server_def f u log_level_def Let_def)
  then obtain c1 where c1: "UvicornRun c1
      \<in> set (snd (run_development_server world_both ''127.0.0.1'' 8000 True 4 None))"
    by blast
  have "\<exists>config. UvicornRun config
      \<in> set (snd (run_development_server world_both ''127.0.0.1'' 8000 False 4 None))"
    by (simp add: run_development_server_def f u log_level_def Let_def)
  then obtain c2 where c2: "UvicornRun c2
      \<in> set (snd (run_development_server world_both ''127.0.0.1'' 8000 False 4 None))"
    by blast
  from workers_forced_to_one_on_reload [OF c1] workers_forced_to_one_on_reload [OF c2] c1 c2
  show ?thesis
    by auto
qed

text \<open>
  C9, as amended. Whenever \<open>run_development_server\<close> calls the server runner, the
  configuration mapping has the entries \<^verbatim>\<open>ssl_keyfile\<close> and \<^verbatim>\<open>ssl_certfile\<close>, with
  the values of the settings, if a settings object is given, both \<^verbatim>\<open>SSL_KEYFILE\<close> and
  \<^verbatim>\<open>SSL_CERTFILE\<close> are present on it and both values are true in a condition (a
  non-empty string); in every other case it has neither entry, in particular when no
  settings object is given.
\<close>

theorem ssl_entries_iff_configured:
  assumes "UvicornRun config
      \<in> set (snd (run_development_server w host port reload workers settings))"
  shows "(\<forall>s k c. settings = Some s \<longrightarrow> s ''SSL_KEYFILE'' = Some k \<longrightarrow> s ''SSL_CERTFILE'' = Some c
           \<longrightarrow> truthy k \<longrightarrow> truthy c
           \<longrightarrow> config ''ssl_keyfile'' = Some k \<and> config ''ssl_certfile'' = Some c)
    \<and> (\<not> (\<exists>s k c. settings = Some s \<and> s ''SSL_KEYFILE'' = Some k \<and> s ''SSL_CERTFILE'' = Some c
              \<and> truthy k \<and> truthy c)
         \<longrightarrow> config ''ssl_keyfile'' = None \<and> config ''ssl_certfile'' = None)
    \<and> (settings = None \<longrightarrow> config ''ssl_keyfile'' = None \<and> config ''ssl_certfile'' = None)"
proof -
  from run_config [OF assms] obtain app_module level where
    "config = add_ssl settings
      [''app'' \<mapsto> PyStr app_module,
       ''host'' \<mapsto> PyStr host,
       ''port'' \<mapsto> PyInt port,
       ''reload'' \<mapsto> PyBool reload,
       ''workers'' \<mapsto> PyInt (if \<not> reload then workers else 1),
       ''log_level'' \<mapsto> PyStr level,
       ''access_log'' \<mapsto> PyBool True]"
    by blast
  then show ?thesis
    by (auto simp: add_ssl_def split: option.splits)
qed

text \<open>With the settings \<open>settings_tls\<close> both entries are passed on.\<close>

theorem ssl_entries_iff_configured_witness:
  "settings_tls ''SSL_KEYFILE'' = Some (PyStr ''key.pem'')
   \<and> settings_tls ''SSL_CERTFILE'' = Some (PyStr ''cert.pem'')
   \<and> truthy (PyStr ''key.pem'') \<and> truthy (PyStr ''cert.pem'')
   \<and> (\<exists>config. UvicornRun config
        \<in> set (snd (run_development_server world_both ''127.0.0.1'' 8000 False 1
                      (Some settings_tls)))
      \<and> config ''ssl_keyfile'' = Some (PyStr ''key.pem'')
      \<and> config ''ssl_certfile'' = Some (PyStr ''cert.pem''))
   \<and> (\<exists>config. UvicornRun config
        \<in> set (snd (run_development_server world_both ''127.0.0.1'' 8000 False 1 None))
      \<and> config ''ssl_keyfile'' = None \<and> config ''ssl_certfile'' = None)"
proof -
  have f: "find_asgi_application world_both = (Inr (Some ''main:app''), [Import ''main''])"
    by (simp add: find_asgi_application_def candidates_def Let_def path_name_def
        check_asgi_module_def check_asgi_module_direct_def split_colon_def hasattr_def
        module_with_def world_both_def world_base_def)
  have u: "uvicorn_available world_both" "uvicorn_run world_both = (\<lambda>_. None)"
    by (simp_all add: world_both_def world_base_def)
  have s: "settings_tls ''SSL_KEYFILE'' = Some (PyStr ''key.pem'')"
    "settings_tls ''SSL_CERTFILE'' = Some (PyStr ''cert.pem'')"
    "settings_tls ''DEBUG'' = Some (PyBool True)"
    by (simp_all add: settings_tls_def)
  have "\<exists>config. UvicornRun config
      \<in> set (snd (run_development_server world_both ''127.0.0.1'' 8000 False 1
                    (Some settings_tls)))"
    by (simp add: run_development_server_def f u s log_level_def Let_def)
  then obtain c1 where c1: "UvicornRun c1
      \<in> set (snd (run_development_server world_both ''127.0.0.1'' 8000 False 1
                    (Some settings_tls)))"
    by blast
  have "\<exists>config. UvicornRun config
      \<in> set (snd (run_development_server world_both ''127.0.0.1'' 8000 False 1 None))"
    by (simp add: run_development_server_def f u log_level_def Let_def)
  then obtain c2 where c2: "UvicornRun c2
      \<in> set (snd (run_development_server world_both ''127.0.0.1'' 8000 False 1 None))"
    by blast
  from ssl_entries_iff_configured [OF c1] ssl_entries_iff_configured [OF c2] c1 c2 s
  show ?thesis
    by auto
qed

text \<open>
  C9 as stated fails: on \<open>settings_blank\<close> both \<^verbatim>\<open>SSL_KEYFILE\<close> and
  \<^verbatim>\<open>SSL_CERTFILE\<close> are present, as empty strings, and the mapping handed to the server
  runner has neither entry.
\<close>

theorem ssl_present_but_blank:
  "settings_blank ''SSL_KEYFILE'' = Some (PyStr [])
   \<and> settings_blank ''SSL_CERTFILE'' = Some (PyStr [])
   \<and> (\<exists>config. UvicornRun config
        \<in> set (snd (run_development_server world_both ''127.0.0.1'' 8000 False 1
                      (Some settings_blank)))
      \<and> config ''ssl_keyfile'' = None \<and> config ''ssl_certfile'' = None)"
proof -
  have f: "find_asgi_application world_both = (Inr (Some ''main:app''), [Import ''main''])"
    by (simp add: find_asgi_application_def candidates_def Let_def path_name_def
        check_asgi_module_def check_asgi_module_direct_def split_colon_def hasattr_def
        module_with_def world_both_def world_base_def)
  have u: "uvicorn_available world_both" "uvicorn_run world_both = (\<lambda>_. None)"
    by (simp_all add: world_both_def world_base_def)
  have s: "settings_blank ''SSL_KEYFILE'' = Some (PyStr [])"
    "settings_blank ''SSL_CERTFILE'' = Some (PyStr [])"
    "settings_blank ''DEBUG'' = Some (PyBool False)"
    by (simp_all add: settings_blank_def)
  show ?thesis
    by (simp add: run_development_server_def f u s log_level_def add_ssl_def Let_def)
qed

subsection \<open>The candidate list\<close>

text \<open>
  C6, as amended. The ordered candidate list is: the direct top-level modules
  \<^verbatim>\<open>main\<close>, \<^verbatim>\<open>asgi\<close>, \<^verbatim>\<open>app\<close>, \<^verbatim>\<open>application\<close> under the attribute names
  \<^verbatim>\<open>app\<close> and \<^verbatim>\<open>application\<close>; then the first three of them (\<^verbatim>\<open>main\<close>,
  \<^verbatim>\<open>asgi\<close>, \<^verbatim>\<open>app\<close>, not \<^verbatim>\<open>application\<close>) nested one directory level deep via
  the wildcard marker; then the first two of them (\<^verbatim>\<open>main\<close>, \<^verbatim>\<open>asgi\<close>) below the base
  name of the current directory, joined with a dot and then with a slash.
\<close>

theorem candidates_order:
  "candidates w =
     [''main:app'', ''asgi:application'', ''app:app'', ''application:app'']
     @ map (\<lambda>c. ''*/'' @ c) [''main:app'', ''asgi:application'', ''app:app'']
     @ concat (map (\<lambda>sep. map (\<lambda>c. path_name (cwd w) @ sep @ c)
                              [''main:app'', ''asgi:application''])
                 [''.'', ''/''])"
  by (simp add: candidates_def Let_def)

text \<open>
  C6 as stated fails: the module \<^verbatim>\<open>application\<close> is a direct candidate, and no
  candidate has the module part \<^verbatim>\<open>*/application\<close>.
\<close>

theorem application_not_nested:
  "''application'' \<in> set (map (takeWhile (\<lambda>c. c \<noteq> CHR '':'')) (candidates world_base))
   \<and> ''*/application'' \<notin> set (map (takeWhile (\<lambda>c. c \<noteq> CHR '':'')) (candidates world_base))"
  by (simp add: candidates_def Let_def path_name_def world_base_def)

subsection \<open>The directories watched for reload\<close>

text \<open>When no call fails, the loop adds exactly the packages that are not hidden.\<close>

lemma reload_loop_set:
  assumes "\<forall>e\<in>set items. \<exists>d. is_dir e = Inr d"
    and "\<forall>e\<in>set items.
           is_dir e = Inr True \<and> \<not> prefix ''.'' (name e) \<and> name e \<noteq> ''__pycache__''
           \<longrightarrow> (\<exists>h. has_init e = Inr h)"
  shows "\<exists>dirs. reload_loop w items acc = Inr dirs
    \<and> set dirs = set acc \<union> {path_join (cwd w) (name e) | e.
        e \<in> set items \<and> is_dir e = Inr True \<and> \<not> prefix ''.'' (name e)
        \<and> name e \<noteq> ''__pycache__'' \<and> has_init e = Inr True}"
  using assms
proof (induction items arbitrary: acc)
  case Nil
  then show ?case by simp
next
  case (Cons item items)
  from Cons.prems obtain d where d: "is_dir item = Inr d"
    by auto
  show ?case
  proof (cases "d \<and> \<not> prefix ''.'' (name item) \<and> name item \<noteq> ''__pycache__''")
    case False
    with d Cons.IH [of acc] Cons.prems show ?thesis
      by auto
  next
    case True
    with d Cons.prems obtain h where h: "has_init item = Inr h"
      by auto
    show ?thesis
    proof (cases h)
      case True
      with \<open>d \<and> \<not> prefix ''.'' (name item) \<and> name item \<noteq> ''__pycache__''\<close> d h
        Cons.IH [of "acc @ [path_join (cwd w) (name item)]"] Cons.prems
      show ?thesis
        by auto
    next
      case False
      with \<open>d \<and> \<not> prefix ''.'' (name item) \<and> name item \<noteq> ''__pycache__''\<close> d h
        Cons.IH [of acc] Cons.prems
      show ?thesis
        by auto
    qed
  qed
qed

text \<open>When a call fails for some entry, the loop ends with an error.\<close>

lemma reload_loop_raises:
  assumes "e \<in> set items"
    and "is_dir e = Inl x
      \<or> (is_dir e = Inr True \<and> \<not> prefix ''.'' (name e) \<and> name e \<noteq> ''__pycache__''
          \<and> has_init e = Inl x)"
  shows "\<exists>y. reload_loop w items acc = Inl y"
  using assms
proof (induction items arbitrary: acc)
  case Nil
  then show ?case by simp
next
  case (Cons item items)
  show ?case
  proof (cases "e = item")
    case True
    with Cons.prems(2) show ?thesis
      by auto
  next
    case False
    with Cons.prems have "\<And>acc. \<exists>y. reload_loop w items acc = Inl y"
      by (intro Cons.IH) auto
    then show ?thesis
      by (auto split: sum.splits)
  qed
qed

lemma path_join_inject: "path_join p n = path_join p n' \<Longrightarrow> n = n'"
  by (simp add: path_join_def split: if_splits)

lemma path_join_neq: "n \<noteq> [] \<Longrightarrow> path_join p n \<noteq> p"
  by (simp add: path_join_def)

text \<open>
  C8, as amended. In every state of the working directory in which it can be listed and
  the calls on its entries succeed (\<^verbatim>\<open>is_dir\<close> for every entry, \<^verbatim>\<open>exists\<close> for the
  \<^verbatim>\<open>__init__.py\<close> of every directory that is neither hidden nor \<^verbatim>\<open>__pycache__\<close>),
  \<open>get_reload_dirs\<close> returns a list that contains the working directory; that contains
  every immediate subdirectory that is not hidden, is not \<^verbatim>\<open>__pycache__\<close> and holds the
  file \<^verbatim>\<open>__init__.py\<close>; and that contains nothing else: every element other than the
  working directory is such a subdirectory. So an entry that is not a directory, is
  hidden, is \<^verbatim>\<open>__pycache__\<close> or has no \<^verbatim>\<open>__init__.py\<close> is not in the list (the entries
  of a directory have distinct, non-empty names). In the other states, where the listing
  or one of those calls raises, \<open>get_reload_dirs\<close> returns nothing and ends with an error.
\<close>

theorem get_reload_dirs_watch_set:
  "(iterdir w = Inr items \<longrightarrow>
      (\<forall>e\<in>set items. \<exists>d. is_dir e = Inr d) \<longrightarrow>
      (\<forall>e\<in>set items.
         is_dir e = Inr True \<and> \<not> prefix ''.'' (name e) \<and> name e \<noteq> ''__pycache__''
         \<longrightarrow> (\<exists>h. has_init e = Inr h)) \<longrightarrow>
      (\<exists>dirs. get_reload_dirs w = Inr dirs
         \<and> cwd w \<in> set dirs
         \<and> (\<forall>e\<in>set items.
              is_dir e = Inr True \<and> \<not> prefix ''.'' (name e) \<and> name e \<noteq> ''__pycache__''
              \<and> has_init e = Inr True
              \<longrightarrow> path_join (cwd w) (name e) \<in> set dirs)
         \<and> (\<forall>p\<in>set dirs. p = cwd w \<or>
              (\<exists>e\<in>set items. p = path_join (cwd w) (name e)
                 \<and> is_dir e = Inr True \<and> \<not> prefix ''.'' (name e)
                 \<and> name e \<noteq> ''__pycache__'' \<and> has_init e = Inr True))
         \<and> (distinct (map name items) \<longrightarrow> (\<forall>e\<in>set items. name e \<noteq> []) \<longrightarrow>
              (\<forall>e\<in>set items.
                 is_dir e \<noteq> Inr True \<or> prefix ''.'' (name e) \<or> name e = ''__pycache__''
                 \<or> has_init e \<noteq> Inr True
                 \<longrightarrow> path_join (cwd w) (name e) \<notin> set dirs))))
   \<and> (\<forall>x. iterdir w = Inl x \<longrightarrow> get_reload_dirs w = Inl x)
   \<and> (\<forall>e x. iterdir w = Inr items \<longrightarrow> e \<in> set items \<longrightarrow>
         (is_dir e = Inl x
          \<or> (is_dir e = Inr True \<and> \<not> prefix ''.'' (name e) \<and> name e \<noteq> ''__pycache__''
              \<and> has_init e = Inl x)) \<longrightarrow>
         (\<exists>y. get_reload_dirs w = Inl y))"
proof (intro conjI allI impI)
  assume it: "iterdir w = Inr items"
    and d: "\<forall>e\<in>set items. \<exists>d. is_dir e = Inr d"
    and h: "\<forall>e\<in>set items.
         is_dir e = Inr True \<and> \<not> prefix ''.'' (name e) \<and> name e \<noteq> ''__pycache__''
         \<longrightarrow> (\<exists>h. has_init e = Inr h)"
  from reload_loop_set [OF d h, of w "[cwd w]"] obtain dirs where
    r: "reload_loop w items [cwd w] = Inr dirs"
    and s: "set dirs = set [cwd w] \<union> {path_join (cwd w) (name e) | e.
        e \<in> set items \<and> is_dir e = Inr True \<and> \<not> prefix ''.'' (name e)
        \<and> name e \<noteq> ''__pycache__'' \<and> has_init e = Inr True}"
    by blast
  have excl: "path_join (cwd w) (name e) \<notin> set dirs"
    if dn: "distinct (map name items)" and ne: "\<forall>e\<in>set items. name e \<noteq> []"
      and e: "e \<in> set items"
      and x: "is_dir e \<noteq> Inr True \<or> prefix ''.'' (name e) \<or> name e = ''__pycache__''
        \<or> has_init e \<noteq> Inr True"
    for e
  proof
    assume "path_join (cwd w) (name e) \<in> set dirs"
    with s consider "path_join (cwd w) (name e) = cwd w"
      | e' where "e' \<in> set items" "path_join (cwd w) (name e) = path_join (cwd w) (name e')"
        "is_dir e' = Inr True" "\<not> prefix ''.'' (name e')" "name e' \<noteq> ''__pycache__''"
        "has_init e' = Inr True"
      by auto
    then show False
    proof cases
      case 1
      with ne e show False
        using path_join_neq [of "name e" "cwd w"] by simp
    next
      case 2
      then have "name e = name e'"
        by (auto dest: path_join_inject)
      with dn e 2(1) have "e = e'"
        by (auto simp: distinct_map dest: inj_onD)
      with x 2 show False
        by simp
    qed
  qed
  have g: "get_reload_dirs w = Inr dirs"
    using it r by (simp add: get_reload_dirs_def)
  have c1: "cwd w \<in> set dirs"
    using s by simp
  have c2: "\<forall>e\<in>set items.
      is_dir e = Inr True \<and> \<not> prefix ''.'' (name e) \<and> name e \<noteq> ''__pycache__''
      \<and> has_init e = Inr True
      \<longrightarrow> path_join (cwd w) (name e) \<in> set dirs"
    using s by blast
  have c3: "\<forall>p\<in>set dirs. p = cwd w \<or>
      (\<exists>e\<in>set items. p = path_join (cwd w) (name e)
         \<and> is_dir e = Inr True \<and> \<not> prefix ''.'' (name e)
         \<and> name e \<noteq> ''__pycache__'' \<and> has_init e = Inr True)"
  proof
    fix p
    assume "p \<in> set dirs"
    with s show "p = cwd w \<or>
      (\<exists>e\<in>set items. p = path_join (cwd w) (name e)
         \<and> is_dir e = Inr True \<and> \<not> prefix ''.'' (name e)
         \<and> name e \<noteq> ''__pycache__'' \<and> has_init e = Inr True)"
      by auto
  qed
  have c4: "distinct (map name items) \<longrightarrow> (\<forall>e\<in>set items. name e \<noteq> []) \<longrightarrow>
      (\<forall>e\<in>set items.
         is_dir e \<noteq> Inr True \<or> prefix ''.'' (name e) \<or> name e = ''__pycache__''
         \<or> has_init e \<noteq> Inr True
         \<longrightarrow> path_join (cwd w) (name e) \<notin> set dirs)"
    using excl by (intro impI ballI) blast
  show "\<exists>dirs. get_reload_dirs w = Inr dirs
         \<and> cwd w \<in> set dirs
         \<and> (\<forall>e\<in>set items.
              is_dir e = Inr True \<and> \<not> prefix ''.'' (name e) \<and> name e \<noteq> ''__pycache__''
              \<and> has_init e = Inr True
              \<longrightarrow> path_join (cwd w) (name e) \<in> set dirs)
         \<and> (\<forall>p\<in>set dirs. p = cwd w \<or>
              (\<exists>e\<in>set items. p = path_join (cwd w) (name e)
                 \<and> is_dir e = Inr True \<and> \<not> prefix ''.'' (name e)
                 \<and> name e \<noteq> ''__pycache__'' \<and> has_init e = Inr True))
         \<and> (distinct (map name items) \<longrightarrow> (\<forall>e\<in>set items. name e \<noteq> []) \<longrightarrow>
              (\<forall>e\<in>set items.
                 is_dir e \<noteq> Inr True \<or> prefix ''.'' (name e) \<or> name e = ''__pycache__''
                 \<or> has_init e \<noteq> Inr True
                 \<longrightarrow> path_join (cwd w) (name e) \<notin> set dirs))"
    using g c1 c2 c3 c4 by (intro exI [of _ dirs] conjI)
next
  fix x
  assume "iterdir w = Inl x"
  then show "get_reload_dirs w = Inl x"
    by (simp add: get_reload_dirs_def)
next
  fix e x
  assume "iterdir w = Inr items" and "e \<in> set items"
    and "is_dir e = Inl x
          \<or> (is_dir e = Inr True \<and> \<not> prefix ''.'' (name e) \<and> name e \<noteq> ''__pycache__''
              \<and> has_init e = Inl x)"
  then show "\<exists>y. get_reload_dirs w = Inl y"
    using reload_loop_raises [of e items x w "[cwd w]"] by (simp add: get_reload_dirs_def)
qed

text \<open>
  The project directory of \<open>world_tree\<close>: every call succeeds, and only the package
  \<^verbatim>\<open>shop\<close> is watched beside the directory itself.
\<close>

theorem get_reload_dirs_watch_set_witness:
  "iterdir world_tree = Inr
        [\<lparr>name = ''.git'', is_dir = Inr True, has_init = Inr False\<rparr>,
         \<lparr>name = ''shop'', is_dir = Inr True, has_init = Inr True\<rparr>,
         \<lparr>name = ''.tox'', is_dir = Inr True, has_init = Inr True\<rparr>,
         \<lparr>name = ''__pycache__'', is_dir = Inr True, has_init = Inr True\<rparr>,
         \<lparr>name = ''docs'', is_dir = Inr True, has_init = Inr False\<rparr>,
         \<lparr>name = ''main.py'', is_dir = Inr False, has_init = Inr False\<rparr>]
   \<and> get_reload_dirs world_tree = Inr [''/home/dev/shop'', ''/home/dev/shop/shop'']
   \<and> (\<exists>dirs. get_reload_dirs world_tree = Inr dirs
        \<and> cwd world_tree \<in> set dirs
        \<and> ''/home/dev/shop/shop'' \<in> set dirs
        \<and> ''/home/dev/shop/.git'' \<notin> set dirs
        \<and> ''/home/dev/shop/.tox'' \<notin> set dirs
        \<and> ''/home/dev/shop/__pycache__'' \<notin> set dirs
        \<and> ''/home/dev/shop/docs'' \<notin> set dirs
        \<and> ''/home/dev/shop/main.py'' \<notin> set dirs)"
proof -
  let ?items = "[\<lparr>name = ''.git'', is_dir = Inr True, has_init = Inr False\<rparr>,
         \<lparr>name = ''shop'', is_dir = Inr True, has_init = Inr True\<rparr>,
         \<lparr>name = ''.tox'', is_dir = Inr True, has_init = Inr True\<rparr>,
         \<lparr>name = ''__pycache__'', is_dir = Inr True, has_init = Inr True\<rparr>,
         \<lparr>name = ''docs'', is_dir = Inr True, has_init = Inr False\<rparr>,
         \<lparr>name = ''main.py'', is_dir = Inr False, has_init = Inr False\<rparr>]"
  have it: "iterdir world_tree = Inr ?items"
    by (simp add: world_tree_def world_base_def)
  have d: "\<forall>e\<in>set ?items. \<exists>d. is_dir e = Inr d"
    by auto
  have h: "\<forall>e\<in>set ?items.
      is_dir e = Inr True \<and> \<not> prefix ''.'' (name e) \<and> name e \<noteq> ''__pycache__''
      \<longrightarrow> (\<exists>h. has_init e = Inr h)"
    by auto
  have g: "get_reload_dirs world_tree = Inr [''/home/dev/shop'', ''/home/dev/shop/shop'']"
    by (simp add: get_reload_dirs_def path_join_def world_tree_def world_base_def)
  from get_reload_dirs_watch_set [of world_tree ?items, THEN conjunct1,
      THEN mp, OF it, THEN mp, OF d, THEN mp, OF h]
  obtain dirs where "get_reload_dirs world_tree = Inr dirs" and "cwd world_tree \<in> set dirs"
    by blast
  with g it show ?thesis
    by auto
qed

text \<open>
  C8 as stated fails: in \<open>world_locked\<close> the directory \<^verbatim>\<open>private/\<close> may not be
  searched, the look for its \<^verbatim>\<open>__init__.py\<close> raises \<open>PermissionError\<close>, and
  \<open>get_reload_dirs\<close> returns no list at all.
\<close>

theorem get_reload_dirs_raises:
  "iterdir world_locked = Inr
        [\<lparr>name = ''shop'', is_dir = Inr True, has_init = Inr True\<rparr>,
         \<lparr>name = ''private'', is_dir = Inr True, has_init = Inl PermissionError\<rparr>]
   \<and> get_reload_dirs world_locked = Inl PermissionError"
  by (simp add: get_reload_dirs_def world_locked_def world_base_def)

end
